theory Spec2Isabelle
  imports Complex_Main "HOL-Library.Word"
begin

section \<open>JavaScript strings\<close>

text \<open>
  A JavaScript string is a sequence of UTF-16 code units; \<open>length\<close>, \<open>substring\<close>,
  \<open>split\<close>, \<open>trim\<close> and \<open>===\<close> all work on code units. String literals of the
  source are written as Isabelle strings and converted by \<open>js\<close>.
\<close>

type_synonym jschar = "16 word"
type_synonym jsstring = "jschar list"

definition js :: "string \<Rightarrow> jsstring" where
  "js s = map (\<lambda>c. of_nat (of_char c)) s"

definition nl :: jschar where
  "nl = 0x0A"

text \<open>
  \<open>String.prototype.trim\<close> removes WhiteSpace and LineTerminator code points from both
  ends: TAB, VT, FF, SP, NBSP, ZWNBSP, the Unicode space separators, LF, CR, LS and PS.
\<close>

definition isWhiteSpace :: "jschar \<Rightarrow> bool" where
  "isWhiteSpace c \<longleftrightarrow>
     c = 0x0009 \<or> c = 0x000A \<or> c = 0x000B \<or> c = 0x000C \<or> c = 0x000D \<or> c = 0x0020 \<or>
     c = 0x00A0 \<or> c = 0x1680 \<or> (0x2000 \<le> c \<and> c \<le> 0x200A) \<or> c = 0x2028 \<or>
     c = 0x2029 \<or> c = 0x202F \<or> c = 0x205F \<or> c = 0x3000 \<or> c = 0xFEFF"

definition trim :: "jsstring \<Rightarrow> jsstring" where
  "trim s = dropWhile isWhiteSpace (rev (dropWhile isWhiteSpace (rev s)))"

text \<open>
  \<open>text.split('\n')\<close>: the pieces between the line feeds; always at least one piece.
  The second branch of the \<open>case\<close> is never taken (lemma \<open>split_newline_nonempty\<close>).
\<close>

fun split_newline :: "jsstring \<Rightarrow> jsstring list" where
  "split_newline [] = [[]]"
| "split_newline (c # cs) =
     (if c = nl then [] # split_newline cs
      else (case split_newline cs of
              l # ls \<Rightarrow> (c # l) # ls
            | [] \<Rightarrow> [[c]]))"

text \<open>\<open>s.includes(t)\<close>: \<open>t\<close> occurs in \<open>s\<close> as a contiguous run of code units.\<close>

fun startsWith :: "jsstring \<Rightarrow> jsstring \<Rightarrow> bool" where
  "startsWith s [] = True"
| "startsWith [] (c # t) = False"
| "startsWith (d # s) (c # t) = (d = c \<and> startsWith s t)"

fun includes_js :: "jsstring \<Rightarrow> jsstring \<Rightarrow> bool" where
  "includes_js [] t = (t = [])"
| "includes_js (d # s) t = (startsWith (d # s) t \<or> includes_js s t)"

text \<open>\<open>xs.slice(-n)\<close>: the trailing \<open>n\<close> elements, all of them when there are fewer.\<close>

definition slice_last :: "nat \<Rightarrow> 'a list \<Rightarrow> 'a list" where
  "slice_last n xs = drop (length xs - n) xs"

section \<open>Chunking: splitMessage (handler.ts)\<close>

text \<open>
  The inner \<open>while (remainingLine.length > maxLength)\<close> loop of \<open>splitMessage\<close>. It pushes
  \<open>remainingLine.substring(0, maxLength)\<close> and continues with
  \<open>remainingLine.substring(maxLength)\<close>. With \<open>maxLength = 0\<close> and a non-empty line it never
  ends; not returning is the value \<open>None\<close>.
\<close>

partial_function (option) hardSlice ::
  "jsstring \<Rightarrow> nat \<Rightarrow> jsstring list \<Rightarrow> (jsstring list \<times> jsstring) option" where
  "hardSlice remainingLine maxLength chunks =
     (if length remainingLine > maxLength
      then hardSlice (drop maxLength remainingLine) maxLength
             (chunks @ [take maxLength remainingLine])
      else Some (chunks, remainingLine))"

declare hardSlice.simps [code]

text \<open>
  The \<open>for (const line of lines)\<close> loop, threading \<open>chunks\<close> and \<open>currentChunk\<close>.
  \<open>if (currentChunk.trim())\<close> tests the trimmed string for being non-empty.
\<close>

fun splitLoop ::
  "nat \<Rightarrow> jsstring list \<Rightarrow> jsstring list \<Rightarrow> jsstring \<Rightarrow> (jsstring list \<times> jsstring) option" where
  "splitLoop maxLength [] chunks currentChunk = Some (chunks, currentChunk)"
| "splitLoop maxLength (line # lines) chunks currentChunk =
     (if length currentChunk + length line + 1 > maxLength then
        (let chunks1 = (if trim currentChunk \<noteq> [] then chunks @ [trim currentChunk] else chunks)
         in if length line > maxLength then
              (case hardSlice line maxLength chunks1 of
                 None \<Rightarrow> None
               | Some (chunks2, remainingLine) \<Rightarrow> splitLoop maxLength lines chunks2 remainingLine)
            else splitLoop maxLength lines chunks1 line)
      else
        (if length currentChunk > 0
         then splitLoop maxLength lines chunks (currentChunk @ [nl] @ line)
         else splitLoop maxLength lines chunks line))"

definition splitMessage :: "jsstring \<Rightarrow> nat \<Rightarrow> jsstring list option" where
  "splitMessage text maxLength =
     (if length text \<le> maxLength then Some [text]
      else (case splitLoop maxLength (split_newline text) [] [] of
              None \<Rightarrow> None
            | Some (chunks, currentChunk) \<Rightarrow>
                (let chunks' = (if trim currentChunk \<noteq> [] then chunks @ [trim currentChunk]
                                else chunks)
                 in Some (if length chunks' > 0 then chunks' else [take maxLength text]))))"

section \<open>Data model (shared/schema.ts)\<close>

text \<open>
  One record per table row. The timestamp columns are not modelled: every table is a list
  kept in creation order, so \<open>orderBy(createdAt)\<close> is the order of the list and
  \<open>orderBy(desc(createdAt)).limit(1)\<close> is its last matching row; the \<open>botStats\<close> table
  is kept in order of \<open>lastUpdated\<close>, the most recently updated row last. A \<open>serial\<close>
  key is one more than the largest key of the table.
\<close>

record User =
  user_id :: nat
  discordId :: jsstring
  username :: jsstring

record Conversation =
  conversation_id :: nat
  userId :: jsstring
  channelId :: jsstring
  guildId :: "jsstring option"

record Message =
  message_id :: nat
  conversationId :: nat
  content :: jsstring
  role :: jsstring

record Settings =
  settings_id :: nat
  settings_guildId :: jsstring
  prefix :: jsstring
  responseLength :: jsstring
  personality :: jsstring
  codeFormat :: bool
  allowedChannels :: "jsstring list"
  channelMode :: jsstring
  slashCommandMode :: jsstring
  activatedChannels :: "jsstring list"

record BotStats =
  botStats_id :: nat
  totalServers :: int
  totalMessages :: int
  activeConversations :: int
  apiCalls :: int
  uptime :: int

text \<open>\<open>Partial<InsertBotStats>\<close>: each field may be absent.\<close>

record StatsUpdate =
  set_totalServers :: "int option"
  set_totalMessages :: "int option"
  set_activeConversations :: "int option"
  set_apiCalls :: "int option"
  set_uptime :: "int option"

section \<open>Gateway events, the Completion Service and the world\<close>

text \<open>The fields of a discord.js \<open>Message\<close> and of a command interaction that the code reads.\<close>

record DiscordMessage =
  author_id :: jsstring
  author_username :: jsstring
  author_bot :: bool
  channel_id :: jsstring
  guild_id :: "jsstring option"
  message_content :: jsstring

record Interaction =
  interaction_user_id :: jsstring
  interaction_channel_id :: "jsstring option"
  interaction_guild_id :: "jsstring option"

record ChatMessage =
  param_role :: jsstring
  param_content :: jsstring

record CompletionRequest =
  model :: jsstring
  request_messages :: "ChatMessage list"
  max_tokens :: nat
  temperature :: rat

text \<open>
  What \<open>openai.chat.completions.create\<close> does is outside the repository: it either throws
  (an \<open>Error\<close> with a message, or some other value) or returns the \<open>content\<close> of each
  choice (\<open>None\<close> for \<open>null\<close>). The service is a parameter of the model; its first argument
  is the number of requests made before.
\<close>

datatype failure = ErrorObject jsstring | OtherValue

type_synonym service = "nat \<Rightarrow> CompletionRequest \<Rightarrow> failure + jsstring option list"

datatype exn = StorageUnavailable | TransportFailure

datatype effect =
    MessageReply jsstring
  | ChannelSend jsstring jsstring
  | InteractionReply jsstring
  | ConsoleError jsstring

text \<open>
  The world: the five tables, the requests made to the Completion Service, and the effects
  observed at the gateway and on the console, in order. \<open>queries\<close> counts the database
  queries issued and \<open>dbFaults\<close> holds the indices of those that fail; \<open>sends\<close> and
  \<open>sendFaults\<close> do the same for the gateway.
\<close>

record world =
  users :: "User list"
  conversations :: "Conversation list"
  messages :: "Message list"
  settings :: "Settings list"
  botStats :: "BotStats list"
  queries :: nat
  dbFaults :: "nat set"
  sends :: nat
  sendFaults :: "nat set"
  completions :: "CompletionRequest list"
  effects :: "effect list"

text \<open>An \<open>async\<close> function: it runs on the world and returns a value or throws.\<close>

type_synonym 'a io = "world \<Rightarrow> (exn + 'a) \<times> world"

definition ret :: "'a \<Rightarrow> 'a io" where
  "ret a w = (Inr a, w)"

definition andThen :: "'a io \<Rightarrow> ('a \<Rightarrow> 'b io) \<Rightarrow> 'b io" where
  "andThen m f w = (case m w of (Inl e, w') \<Rightarrow> (Inl e, w') | (Inr a, w') \<Rightarrow> f a w')"

definition tryCatch :: "'a io \<Rightarrow> (exn \<Rightarrow> 'a io) \<Rightarrow> 'a io" where
  "tryCatch m h w = (case m w of (Inl e, w') \<Rightarrow> h e w' | (Inr a, w') \<Rightarrow> (Inr a, w'))"

definition dbQuery :: "unit io" where
  "dbQuery w =
     (if queries w \<in> dbFaults w
      then (Inl StorageUnavailable, w\<lparr>queries := Suc (queries w)\<rparr>)
      else (Inr (), w\<lparr>queries := Suc (queries w)\<rparr>))"

definition gatewaySend :: "effect \<Rightarrow> unit io" where
  "gatewaySend e w =
     (if sends w \<in> sendFaults w
      then (Inl TransportFailure, w\<lparr>sends := Suc (sends w)\<rparr>)
      else (Inr (), w\<lparr>sends := Suc (sends w), effects := effects w @ [e]\<rparr>))"

definition consoleError :: "jsstring \<Rightarrow> unit io" where
  "consoleError label w = (Inr (), w\<lparr>effects := effects w @ [ConsoleError label]\<rparr>)"

text \<open>\<open>x || d\<close> on an optional string: the empty string is falsy.\<close>

definition orElse :: "jsstring option \<Rightarrow> jsstring \<Rightarrow> jsstring" where
  "orElse x d = (case x of None \<Rightarrow> d | Some s \<Rightarrow> if s = [] then d else s)"

definition orNull :: "jsstring option \<Rightarrow> jsstring option" where
  "orNull x = (case x of None \<Rightarrow> None | Some s \<Rightarrow> if s = [] then None else Some s)"

definition nextId :: "nat list \<Rightarrow> nat" where
  "nextId ids = Suc (fold max ids 0)"

section \<open>Persistence: DatabaseStorage (storage.ts)\<close>

text \<open>
  Each method issues its query and, when the query succeeds, reads or writes the tables. The
  \<open>select\<close> functions are the rows a successful query reads.
\<close>

definition selectUser :: "jsstring \<Rightarrow> world \<Rightarrow> User option" where
  "selectUser d w = find (\<lambda>u. discordId u = d) (users w)"

definition selectConversation :: "jsstring \<Rightarrow> jsstring \<Rightarrow> world \<Rightarrow> Conversation option" where
  "selectConversation ch u w =
     find (\<lambda>c. channelId c = ch \<and> userId c = u) (rev (conversations w))"

definition selectMessages :: "nat \<Rightarrow> world \<Rightarrow> Message list" where
  "selectMessages cid w = filter (\<lambda>m. conversationId m = cid) (messages w)"

definition selectSettings :: "jsstring \<Rightarrow> world \<Rightarrow> Settings option" where
  "selectSettings g w = find (\<lambda>s. settings_guildId s = g) (settings w)"

definition selectBotStats :: "world \<Rightarrow> BotStats option" where
  "selectBotStats w = (if botStats w = [] then None else Some (last (botStats w)))"

definition getUserByDiscordId :: "jsstring \<Rightarrow> User option io" where
  "getUserByDiscordId d = andThen dbQuery (\<lambda>_ w. (Inr (selectUser d w), w))"

definition createUser :: "jsstring \<Rightarrow> jsstring \<Rightarrow> User io" where
  "createUser d n =
     andThen dbQuery (\<lambda>_ w.
       let user = \<lparr>user_id = nextId (map user_id (users w)), discordId = d, username = n\<rparr>
       in (Inr user, w\<lparr>users := users w @ [user]\<rparr>))"

definition getConversationByChannelAndUser ::
  "jsstring \<Rightarrow> jsstring \<Rightarrow> Conversation option io" where
  "getConversationByChannelAndUser ch u =
     andThen dbQuery (\<lambda>_ w. (Inr (selectConversation ch u w), w))"

definition createConversation ::
  "jsstring \<Rightarrow> jsstring \<Rightarrow> jsstring option \<Rightarrow> Conversation io" where
  "createConversation u ch g =
     andThen dbQuery (\<lambda>_ w.
       let conversation = \<lparr>conversation_id = nextId (map conversation_id (conversations w)),
                            userId = u, channelId = ch, guildId = g\<rparr>
       in (Inr conversation, w\<lparr>conversations := conversations w @ [conversation]\<rparr>))"

definition getMessagesByConversation :: "nat \<Rightarrow> Message list io" where
  "getMessagesByConversation cid =
     andThen dbQuery (\<lambda>_ w. (Inr (selectMessages cid w), w))"

definition createMessage :: "nat \<Rightarrow> jsstring \<Rightarrow> jsstring \<Rightarrow> Message io" where
  "createMessage cid c r =
     andThen dbQuery (\<lambda>_ w.
       let message = \<lparr>message_id = nextId (map message_id (messages w)),
                       conversationId = cid, content = c, role = r\<rparr>
       in (Inr message, w\<lparr>messages := messages w @ [message]\<rparr>))"

definition getSettingsByGuildId :: "jsstring \<Rightarrow> Settings option io" where
  "getSettingsByGuildId g =
     andThen dbQuery (\<lambda>_ w. (Inr (selectSettings g w), w))"

text \<open>
  \<open>InsertSettings\<close> has no \<open>id\<close>: the \<open>settings_id\<close> of the argument is not read. The update
  keeps the key of the row it changes (\<open>guild_id\<close> is unique, so that is one row), the
  insert draws a new one.
\<close>

definition createOrUpdateSettings :: "Settings \<Rightarrow> Settings io" where
  "createOrUpdateSettings insertSettings =
     andThen (getSettingsByGuildId (settings_guildId insertSettings)) (\<lambda>existingSettings.
       case existingSettings of
         Some existing \<Rightarrow>
           andThen dbQuery (\<lambda>_ w.
             (Inr (insertSettings\<lparr>settings_id := settings_id existing\<rparr>),
              w\<lparr>settings :=
                  map (\<lambda>s. if settings_guildId s = settings_guildId insertSettings
                            then insertSettings\<lparr>settings_id := settings_id s\<rparr> else s)
                      (settings w)\<rparr>))
       | None \<Rightarrow>
           andThen dbQuery (\<lambda>_ w.
             let newSettings = insertSettings\<lparr>settings_id := nextId (map settings_id (settings w))\<rparr>
             in (Inr newSettings, w\<lparr>settings := settings w @ [newSettings]\<rparr>)))"

definition getBotStats :: "BotStats option io" where
  "getBotStats = andThen dbQuery (\<lambda>_ w. (Inr (selectBotStats w), w))"

definition applyUpdate :: "StatsUpdate \<Rightarrow> BotStats \<Rightarrow> BotStats" where
  "applyUpdate u b =
     b\<lparr>totalServers := (case set_totalServers u of Some v \<Rightarrow> v | None \<Rightarrow> totalServers b),
       totalMessages := (case set_totalMessages u of Some v \<Rightarrow> v | None \<Rightarrow> totalMessages b),
       activeConversations :=
         (case set_activeConversations u of Some v \<Rightarrow> v | None \<Rightarrow> activeConversations b),
       apiCalls := (case set_apiCalls u of Some v \<Rightarrow> v | None \<Rightarrow> apiCalls b),
       uptime := (case set_uptime u of Some v \<Rightarrow> v | None \<Rightarrow> uptime b)\<rparr>"

text \<open>
  The update writes the fields of \<open>statsUpdate\<close> and a new \<open>lastUpdated\<close> into the row whose
  key is that of the row just read, which makes it the most recent row; the insert starts
  from zeros.
\<close>

definition updateBotStats :: "StatsUpdate \<Rightarrow> BotStats io" where
  "updateBotStats statsUpdate =
     andThen getBotStats (\<lambda>existingStats.
       case existingStats of
         Some existing \<Rightarrow>
           andThen dbQuery (\<lambda>_ w.
             (Inr (applyUpdate statsUpdate existing),
              w\<lparr>botStats :=
                  filter (\<lambda>b. botStats_id b \<noteq> botStats_id existing) (botStats w)
                  @ map (applyUpdate statsUpdate)
                      (filter (\<lambda>b. botStats_id b = botStats_id existing) (botStats w))\<rparr>))
       | None \<Rightarrow>
           andThen dbQuery (\<lambda>_ w.
             let newStats = applyUpdate statsUpdate
                   \<lparr>botStats_id = nextId (map botStats_id (botStats w)), totalServers = 0,
                    totalMessages = 0, activeConversations = 0, apiCalls = 0, uptime = 0\<rparr>
             in (Inr newStats, w\<lparr>botStats := botStats w @ [newStats]\<rparr>)))"

section \<open>Completion request builder: generateAIResponse (openai/client.ts)\<close>

definition systemPrompt :: "jsstring option \<Rightarrow> jsstring option \<Rightarrow> jsstring" where
  "systemPrompt pers rlen =
     js ''You are a helpful AI assistant in a Discord server. ''
     @ (if pers = Some (js ''friendly'') then
          js ''Be warm, casual, and use friendly language. Use emojis occasionally to show enthusiasm. ''
        else if pers = Some (js ''technical'') then
          js ''Be precise, technical, and detailed in your responses. Focus on accuracy and provide code examples when relevant. ''
        else if pers = Some (js ''creative'') then
          js ''Be imaginative, creative, and think outside the box. Encourage creative thinking and exploration. ''
        else js ''Be helpful, clear, and informative. '')
     @ (if rlen = Some (js ''concise'') then
          js ''Keep responses brief and to the point. Aim for 1-2 sentences when possible.''
        else if rlen = Some (js ''detailed'') then
          js ''Provide comprehensive and detailed responses with examples and explanations.''
        else js ''Provide balanced responses that are informative but not overly long.'')"

text \<open>
  The array \<open>conversationMessages\<close>: \<open>!lastMessage\<close> holds exactly when the context is
  empty.
\<close>

definition conversationMessages ::
  "jsstring \<Rightarrow> Message list \<Rightarrow> jsstring option \<Rightarrow> jsstring option \<Rightarrow> ChatMessage list" where
  "conversationMessages message contextMessages pers rlen =
     [\<lparr>param_role = js ''system'', param_content = systemPrompt pers rlen\<rparr>]
     @ map (\<lambda>contextMessage.
              \<lparr>param_role = role contextMessage, param_content = content contextMessage\<rparr>)
         contextMessages
     @ (if contextMessages = [] \<or> content (last contextMessages) \<noteq> message
        then [\<lparr>param_role = js ''user'', param_content = message\<rparr>] else [])"

definition apology :: "failure \<Rightarrow> jsstring" where
  "apology error =
     (case error of
        ErrorObject m \<Rightarrow>
          if includes_js m (js ''rate limit'')
          then js ''I'm currently experiencing high demand. Please try again in a moment.''
          else if includes_js m (js ''API key'')
          then js ''There's an issue with my configuration. Please contact the server administrator.''
          else js ''I encountered an error while processing your request. Please try again later.''
      | OtherValue \<Rightarrow>
          js ''I encountered an error while processing your request. Please try again later.'')"

text \<open>The argument of \<open>openai.chat.completions.create\<close> (client.ts 67-72).\<close>

definition completionRequest ::
  "jsstring \<Rightarrow> Message list \<Rightarrow> jsstring option \<Rightarrow> jsstring option \<Rightarrow> CompletionRequest" where
  "completionRequest message contextMessages pers rlen =
     \<lparr>model = js ''gpt-4o'',
      request_messages = conversationMessages message contextMessages pers rlen,
      max_tokens = (if rlen = Some (js ''detailed'') then 1500
                    else if rlen = Some (js ''concise'') then 500 else 1000),
      temperature = (if pers = Some (js ''creative'') then 0.8 else 0.7)\<rparr>"

text \<open>
  The request is recorded in \<open>completions\<close>. Reading \<open>choices[0].message\<close> of a response
  without choices throws a \<open>TypeError\<close> inside the \<open>try\<close>; it is caught with the rest.
\<close>

definition generateAIResponse ::
  "service \<Rightarrow> jsstring \<Rightarrow> Message list \<Rightarrow> jsstring option \<Rightarrow> jsstring option \<Rightarrow> jsstring io" where
  "generateAIResponse svc message contextMessages pers rlen w =
     (let request = completionRequest message contextMessages pers rlen;
          w1 = w\<lparr>completions := completions w @ [request]\<rparr>;
          caught = (\<lambda>error.
            andThen (consoleError (js ''Error generating AI response:''))
              (\<lambda>_. ret (apology error)))
      in case svc (length (completions w)) request of
           Inl error \<Rightarrow> caught error w1
         | Inr [] \<Rightarrow>
             caught (ErrorObject (js ''Cannot read properties of undefined (reading 'message')'')) w1
         | Inr (choice # _) \<Rightarrow>
             ret (case choice of
                    None \<Rightarrow> js ''I apologize, but I couldn't generate a response. Please try again.''
                  | Some c \<Rightarrow>
                      if c = []
                      then js ''I apologize, but I couldn't generate a response. Please try again.''
                      else c) w1)"

section \<open>Plain-message pipeline: handleMessage (discord/handler.ts)\<close>

text \<open>The blocks of the \<open>try\<close> body, named after the comments that head them.\<close>

definition getOrCreateUser :: "DiscordMessage \<Rightarrow> User io" where
  "getOrCreateUser message =
     andThen (getUserByDiscordId (author_id message)) (\<lambda>user.
       case user of
         None \<Rightarrow> createUser (author_id message) (author_username message)
       | Some u \<Rightarrow> ret u)"

definition getOrCreateConversation :: "DiscordMessage \<Rightarrow> Conversation io" where
  "getOrCreateConversation message =
     andThen (getConversationByChannelAndUser (channel_id message) (author_id message))
       (\<lambda>conversation.
          case conversation of
            None \<Rightarrow> createConversation (author_id message) (channel_id message)
                      (orNull (guild_id message))
          | Some c \<Rightarrow> ret c)"

fun sendChunks :: "jsstring \<Rightarrow> jsstring list \<Rightarrow> unit io" where
  "sendChunks ch [] = ret ()"
| "sendChunks ch (chunk # chunks) =
     andThen (gatewaySend (ChannelSend ch chunk)) (\<lambda>_. sendChunks ch chunks)"

text \<open>
  Split long messages. \<open>splitMessage\<close> is called with its default \<open>maxLength = 1900\<close>, for
  which it returns a non-empty list (lemma \<open>splitMessage_returns\<close>); the last branch of
  the \<open>case\<close> is never taken.
\<close>

definition sendResponse :: "DiscordMessage \<Rightarrow> jsstring \<Rightarrow> unit io" where
  "sendResponse message response =
     (if length response \<le> 1900 then gatewaySend (MessageReply response)
      else (case splitMessage response 1900 of
              Some (chunk # chunks) \<Rightarrow>
                andThen (gatewaySend (MessageReply chunk))
                  (\<lambda>_. sendChunks (channel_id message) chunks)
            | _ \<Rightarrow> ret ()))"

text \<open>
  Update stats. \<open>a ?? 0 + 1\<close> parses as \<open>a ?? (0 + 1)\<close>; both fields of the argument are
  evaluated before \<open>updateBotStats\<close> is called.
\<close>

definition updateStats :: "unit io" where
  "updateStats =
     andThen getBotStats (\<lambda>stats1.
     andThen getBotStats (\<lambda>stats2.
     andThen (updateBotStats
                \<lparr>set_totalServers = None,
                 set_totalMessages =
                   Some (case stats1 of Some s \<Rightarrow> totalMessages s | None \<Rightarrow> 0 + 1),
                 set_activeConversations = None,
                 set_apiCalls = Some (case stats2 of Some s \<Rightarrow> apiCalls s | None \<Rightarrow> 0 + 1),
                 set_uptime = None\<rparr>) (\<lambda>_. ret ())))"

text \<open>The \<open>try\<close> block of \<open>handleMessage\<close> (handler.ts 7-75).\<close>

definition handleMessage_try :: "service \<Rightarrow> DiscordMessage \<Rightarrow> unit io" where
  "handleMessage_try svc message =
       (andThen (getOrCreateUser message) (\<lambda>user.
        andThen (getOrCreateConversation message) (\<lambda>conversation.
        andThen (createMessage (conversation_id conversation) (message_content message)
                   (js ''user'')) (\<lambda>_.
        andThen (getMessagesByConversation (conversation_id conversation)) (\<lambda>recentMessages.
        andThen (getSettingsByGuildId (orElse (guild_id message) (js ''DM''))) (\<lambda>settings.
        andThen (generateAIResponse svc (message_content message)
                   (slice_last 10 recentMessages)
                   (map_option personality settings) (map_option responseLength settings))
          (\<lambda>response.
        andThen (createMessage (conversation_id conversation) response (js ''assistant''))
          (\<lambda>_.
        andThen (sendResponse message response) (\<lambda>_.
        updateStats)))))))))"

text \<open>The function: the \<open>try\<close> block and the \<open>catch\<close> block (handler.ts 77-80).\<close>

definition handleMessage :: "service \<Rightarrow> DiscordMessage \<Rightarrow> jsstring \<Rightarrow> unit io" where
  "handleMessage svc message pfx =
     tryCatch (handleMessage_try svc message)
       (\<lambda>error.
          andThen (consoleError (js ''Error handling message:'')) (\<lambda>_.
            gatewaySend (MessageReply
              (js ''Sorry, I encountered an error while processing your message. Please try again later.''))))"

text \<open>
  The number of database queries \<open>handleMessage\<close> issues before it calls
  \<open>generateAIResponse\<close>: five, and one more for each of the user and the conversation
  that has to be created.
\<close>

definition queriesBeforeCompletion :: "DiscordMessage \<Rightarrow> world \<Rightarrow> nat" where
  "queriesBeforeCompletion message w =
     5 + (if selectUser (author_id message) w = None then 1 else 0)
       + (if selectConversation (channel_id message) (author_id message) w = None then 1 else 0)"

section \<open>Response-mode policy: the MessageCreate handler (discord/bot.ts)\<close>

text \<open>The settings created on first contact (bot.ts 43-53).\<close>

definition defaultSettings :: "jsstring \<Rightarrow> Settings" where
  "defaultSettings g =
     \<lparr>settings_id = 0, settings_guildId = g, prefix = js [], responseLength = js ''medium'',
      personality = js ''helpful'', codeFormat = True, allowedChannels = [],
      channelMode = js ''all'', slashCommandMode = js ''disabled'', activatedChannels = []\<rparr>"

text \<open>
  The three checks of bot.ts 56-74, each of which returns without answering; \<open>True\<close> when
  none of them does and \<open>handleMessage\<close> is called.
\<close>

definition admits :: "Settings \<Rightarrow> jsstring \<Rightarrow> bool" where
  "admits s ch =
     (if channelMode s = js ''specific'' \<and> length (allowedChannels s) > 0
         \<and> ch \<notin> set (allowedChannels s) then False
      else if slashCommandMode s = js ''required'' then False
      else if slashCommandMode s = js ''activated'' \<and> ch \<notin> set (activatedChannels s) then False
      else True)"

definition onMessageCreate :: "service \<Rightarrow> DiscordMessage \<Rightarrow> unit io" where
  "onMessageCreate svc message =
     (if author_bot message then ret ()
      else tryCatch
        (andThen (getSettingsByGuildId (orElse (guild_id message) (js ''DM''))) (\<lambda>found.
         andThen (case found of
                    None \<Rightarrow> createOrUpdateSettings
                              (defaultSettings (orElse (guild_id message) (js ''DM'')))
                  | Some s \<Rightarrow> ret s) (\<lambda>s.
         if admits s (channel_id message) then handleMessage svc message (js [])
         else ret ())))
        (\<lambda>error. consoleError (js ''Error handling message:'')))"

text \<open>
  The number of database queries the handler issues before the three checks: the settings
  lookup, and the two of \<open>createOrUpdateSettings\<close> when the guild has no settings.
\<close>

definition queriesBeforeChecks :: "DiscordMessage \<Rightarrow> world \<Rightarrow> nat" where
  "queriesBeforeChecks message w =
     1 + (if selectSettings (orElse (guild_id message) (js ''DM'')) w = None then 2 else 0)"

section \<open>Channel activation: handleActivateCommand (discord/slashCommands.ts)\<close>

definition activatedText :: jsstring where
  "activatedText =
     [0x2705] @ js '' AI responses activated in this channel!'' @ [nl, nl]
     @ js ''I will now respond to all messages in this channel. Use `/deactivate` to stop responses.''"

definition handleActivateCommand :: "Interaction \<Rightarrow> unit io" where
  "handleActivateCommand interaction =
     tryCatch
       (let guildId' = orElse (interaction_guild_id interaction) (js ''DM'');
            channelId' = orElse (interaction_channel_id interaction) (js ''DM'')
        in andThen (getSettingsByGuildId guildId') (\<lambda>found.
           andThen (case found of
                      None \<Rightarrow>
                        createOrUpdateSettings
                          ((defaultSettings guildId')
                             \<lparr>slashCommandMode := js ''activated'',
                              activatedChannels := [channelId']\<rparr>)
                    | Some s \<Rightarrow>
                        createOrUpdateSettings
                          (s\<lparr>activatedChannels :=
                               (if channelId' \<in> set (activatedChannels s)
                                then activatedChannels s
                                else activatedChannels s @ [channelId']),
                             slashCommandMode := js ''activated''\<rparr>)) (\<lambda>_.
           gatewaySend (InteractionReply activatedText))))
       (\<lambda>error.
          andThen (consoleError (js ''Error activating channel:'')) (\<lambda>_.
            gatewaySend (InteractionReply
              (js ''Sorry, I encountered an error while activating this channel.''))))"

section \<open>Scenarios\<close>

text \<open>The store before first contact, with every query and every send succeeding.\<close>

definition emptyWorld :: world where
  "emptyWorld =
     \<lparr>users = [], conversations = [], messages = [], settings = [], botStats = [],
      queries = 0, dbFaults = {}, sends = 0, sendFaults = {}, completions = [], effects = []\<rparr>"

text \<open>A service that always answers \<open>ok\<close>, and one that always fails.\<close>

definition okService :: service where
  "okService n request = Inr [Some (js ''ok'')]"

definition downService :: service where
  "downService n request = Inl (ErrorObject (js ''rate limit exceeded''))"

text \<open>A message of user \<open>U1\<close> on channel \<open>general\<close> of guild \<open>G1\<close>.\<close>

definition plainMessage :: "jsstring \<Rightarrow> DiscordMessage" where
  "plainMessage t =
     \<lparr>author_id = js ''U1'', author_username = js ''user one'', author_bot = False,
      channel_id = js ''general'', guild_id = Some (js ''G1''), message_content = t\<rparr>"

text \<open>A message on a channel of guild \<open>G1\<close>, from a bot or not.\<close>

definition eventOn :: "jsstring \<Rightarrow> bool \<Rightarrow> DiscordMessage" where
  "eventOn ch fromBot =
     \<lparr>author_id = js ''U1'', author_username = js ''user one'', author_bot = fromBot,
      channel_id = ch, guild_id = Some (js ''G1''), message_content = js ''hi''\<rparr>"

text \<open>The command \<open>/activate\<close> of user \<open>U1\<close> on channel \<open>general\<close> of guild \<open>G1\<close>.\<close>

definition activateGeneral :: Interaction where
  "activateGeneral =
     \<lparr>interaction_user_id = js ''U1'', interaction_channel_id = Some (js ''general''),
      interaction_guild_id = Some (js ''G1'')\<rparr>"

text \<open>
  Stores in which guild \<open>G1\<close> has settings: mode \<open>required\<close> with both channel lists
  naming \<open>C1\<close>; mode \<open>activated\<close> with channel \<open>C1\<close> activated; and activated channels
  that hold \<open>general\<close> twice, as \<open>POST /api/settings\<close> can store them.
\<close>

definition requiredSettings :: Settings where
  "requiredSettings =
     (defaultSettings (js ''G1''))
       \<lparr>settings_id := 1, slashCommandMode := js ''required'', channelMode := js ''specific'',
        allowedChannels := [js ''C1''], activatedChannels := [js ''C1'']\<rparr>"

definition activatedSettings :: Settings where
  "activatedSettings =
     (defaultSettings (js ''G1''))
       \<lparr>settings_id := 1, slashCommandMode := js ''activated'',
        activatedChannels := [js ''C1'']\<rparr>"

definition duplicateSettings :: Settings where
  "duplicateSettings =
     (defaultSettings (js ''G1''))
       \<lparr>settings_id := 1, slashCommandMode := js ''activated'',
        activatedChannels := [js ''general'', js ''general'']\<rparr>"

definition settingsWorld :: "Settings \<Rightarrow> world" where
  "settingsWorld s = emptyWorld\<lparr>settings := [s]\<rparr>"

text \<open>Handling the messages of a list one after the other.\<close>

definition turn :: "service \<Rightarrow> DiscordMessage \<Rightarrow> world \<Rightarrow> world" where
  "turn svc message w = snd (handleMessage svc message (js []) w)"

definition turns :: "service \<Rightarrow> DiscordMessage list \<Rightarrow> world \<Rightarrow> world" where
  "turns svc ms w = fold (turn svc) ms w"

text \<open>
  The store after the \<open>ClientReady\<close> handler has written the counters row (bot.ts 22-25).
\<close>

definition readyWorld :: world where
  "readyWorld =
     emptyWorld\<lparr>botStats := [\<lparr>botStats_id = 1, totalServers = 1, totalMessages = 0,
                                activeConversations = 0, apiCalls = 0, uptime = 0\<rparr>]\<rparr>"

text \<open>Eleven messages of the same user on the same channel.\<close>

definition elevenTurns :: "DiscordMessage list" where
  "elevenTurns =
     [plainMessage (js ''t1''), plainMessage (js ''t2''), plainMessage (js ''t3''),
      plainMessage (js ''t4''), plainMessage (js ''t5''), plainMessage (js ''t6''),
      plainMessage (js ''t7''), plainMessage (js ''t8''), plainMessage (js ''t9''),
      plainMessage (js ''t10''), plainMessage (js ''t11'')]"

text \<open>
  The stored messages of a conversation, in creation order, and the messages of a request
  after the system instruction, both as pairs of role and content.
\<close>

definition transcript :: "nat \<Rightarrow> world \<Rightarrow> (jsstring \<times> jsstring) list" where
  "transcript cid w = map (\<lambda>m. (role m, content m)) (selectMessages cid w)"

definition contextOf :: "CompletionRequest \<Rightarrow> (jsstring \<times> jsstring) list" where
  "contextOf request =
     map (\<lambda>p. (param_role p, param_content p)) (tl (request_messages request))"

section \<open>Properties of the chunking\<close>

lemma length_trim_le: "length (trim s) \<le> length s"
proof -
  have "length (trim s) \<le> length (rev (dropWhile isWhiteSpace (rev s)))"
    unfolding trim_def by (rule length_dropWhile_le)
  moreover have "length (dropWhile isWhiteSpace (rev s)) \<le> length (rev s)"
    by (rule length_dropWhile_le)
  ultimately show ?thesis by simp
qed

lemma split_newline_nonempty: "split_newline s \<noteq> []"
  by (induction s) (auto split: list.splits)

lemma hardSlice_returns:
  assumes "1 \<le> maxLength" and "\<forall>c \<in> set chunks. length c \<le> maxLength"
  shows "\<exists>chunks' r. hardSlice remainingLine maxLength chunks = Some (chunks', r)
           \<and> length r \<le> maxLength \<and> (\<forall>c \<in> set chunks'. length c \<le> maxLength)"
  using assms(2)
proof (induction remainingLine arbitrary: chunks rule: length_induct)
  case (1 xs)
  show ?case
  proof (cases "length xs > maxLength")
    case False
    then show ?thesis
      using "1.prems" by (subst hardSlice.simps) simp
  next
    case True
    with assms(1) have shorter: "length (drop maxLength xs) < length xs"
      by simp
    have bound: "\<forall>c \<in> set (chunks @ [take maxLength xs]). length c \<le> maxLength"
      using "1.prems" by simp
    from "1.IH" shorter bound
    obtain chunks' r where
      "hardSlice (drop maxLength xs) maxLength (chunks @ [take maxLength xs]) = Some (chunks', r)"
      "length r \<le> maxLength" "\<forall>c \<in> set chunks'. length c \<le> maxLength"
      by blast
    then show ?thesis
      using True by (subst hardSlice.simps) simp
  qed
qed

lemma splitLoop_returns:
  assumes "1 \<le> maxLength"
  shows "length currentChunk \<le> maxLength \<Longrightarrow> \<forall>c \<in> set chunks. length c \<le> maxLength \<Longrightarrow>
         \<exists>chunks' r. splitLoop maxLength lines chunks currentChunk = Some (chunks', r)
           \<and> length r \<le> maxLength \<and> (\<forall>c \<in> set chunks'. length c \<le> maxLength)"
proof (induction lines arbitrary: chunks currentChunk)
  case Nil
  then show ?case by simp
next
  case (Cons line lines)
  define chunks1 where
    "chunks1 = (if trim currentChunk \<noteq> [] then chunks @ [trim currentChunk] else chunks)"
  have trimmed: "length (trim currentChunk) \<le> maxLength"
    using length_trim_le [of currentChunk] Cons.prems(1) by linarith
  have bound1: "\<forall>c \<in> set chunks1. length c \<le> maxLength"
    using Cons.prems(2) trimmed by (simp add: chunks1_def)
  show ?case
  proof (cases "length currentChunk + length line + 1 > maxLength")
    case over: True
    show ?thesis
    proof (cases "length line > maxLength")
      case True
      from hardSlice_returns [OF assms bound1, of line]
      obtain chunks2 r where hs: "hardSlice line maxLength chunks1 = Some (chunks2, r)"
        and r: "length r \<le> maxLength" and b2: "\<forall>c \<in> set chunks2. length c \<le> maxLength"
        by blast
      from Cons.IH [OF r b2] show ?thesis
        using over True hs by (simp add: chunks1_def)
    next
      case False
      then have "length line \<le> maxLength" by simp
      from Cons.IH [OF this bound1] show ?thesis
        using over False by (simp add: chunks1_def)
    qed
  next
    case fits: False
    show ?thesis
    proof (cases "length currentChunk > 0")
      case True
      have "length (currentChunk @ [nl] @ line) \<le> maxLength"
        using fits by simp
      from Cons.IH [OF this Cons.prems(2)] show ?thesis
        using fits True by simp
    next
      case False
      have "length line \<le> maxLength"
        using fits by simp
      from Cons.IH [OF this Cons.prems(2)] show ?thesis
        using fits False by simp
    qed
  qed
qed

lemma splitMessage_chunks:
  assumes "1 \<le> maxLength"
  shows "\<exists>chunks. splitMessage s maxLength = Some chunks
           \<and> chunks \<noteq> []
           \<and> (\<forall>c \<in> set chunks. length c \<le> maxLength)
           \<and> splitMessage (hd chunks) maxLength = Some [hd chunks]"
proof (cases "length s \<le> maxLength")
  case True
  then show ?thesis by (simp add: splitMessage_def)
next
  case False
  from splitLoop_returns [OF assms, of "[]" "[]" "split_newline s"]
  obtain chunks r where loop: "splitLoop maxLength (split_newline s) [] [] = Some (chunks, r)"
    and r: "length r \<le> maxLength" and b: "\<forall>c \<in> set chunks. length c \<le> maxLength"
    by auto
  define chunks' where "chunks' = (if trim r \<noteq> [] then chunks @ [trim r] else chunks)"
  define result where "result = (if length chunks' > 0 then chunks' else [take maxLength s])"
  have res: "splitMessage s maxLength = Some result"
    using False loop by (simp add: splitMessage_def chunks'_def result_def)
  have "length (trim r) \<le> maxLength"
    using length_trim_le [of r] r by linarith
  with b have b': "\<forall>c \<in> set chunks'. length c \<le> maxLength"
    by (simp add: chunks'_def)
  have nonempty: "result \<noteq> []"
    by (simp add: result_def)
  have bounded: "\<forall>c \<in> set result. length c \<le> maxLength"
    using b' by (simp add: result_def)
  from nonempty bounded have "length (hd result) \<le> maxLength"
    by (cases result) simp_all
  then have "splitMessage (hd result) maxLength = Some [hd result]"
    by (simp add: splitMessage_def)
  with res nonempty bounded show ?thesis by blast
qed

text \<open>
  Claim C4. For every string \<open>s\<close> and every \<open>maxLength \<ge> 1\<close>, \<open>splitMessage\<close> returns, the
  result has at least one element, every element is at most \<open>maxLength\<close> code units long,
  and chunking the first chunk again gives that chunk alone.
\<close>

theorem C4_splitMessage_chunks:
  assumes "1 \<le> maxLength"
  shows "\<exists>chunks. splitMessage s maxLength = Some chunks
           \<and> chunks \<noteq> []
           \<and> (\<forall>c \<in> set chunks. length c \<le> maxLength)
           \<and> splitMessage (hd chunks) maxLength = Some [hd chunks]"
  using assms by (rule splitMessage_chunks)

theorem C4_splitMessage_chunks_witness:
  "(1::nat) \<le> 3 \<and>
   (\<exists>chunks. splitMessage (js ''ab cd'') 3 = Some chunks
      \<and> chunks \<noteq> []
      \<and> (\<forall>c \<in> set chunks. length c \<le> 3)
      \<and> splitMessage (hd chunks) 3 = Some [hd chunks])"
  using C4_splitMessage_chunks [of 3 "js ''ab cd''"] by simp

lemma splitMessage_returns:
  assumes "1 \<le> maxLength"
  shows "\<exists>chunk chunks. splitMessage s maxLength = Some (chunk # chunks)"
  using splitMessage_chunks [OF assms, of s] by (auto simp: neq_Nil_conv)

lemma split_newline_plain: "nl \<notin> set xs \<Longrightarrow> split_newline xs = [xs]"
  by (induction xs) auto

lemma dropWhile_hd_id: "xs \<noteq> [] \<Longrightarrow> \<not> P (hd xs) \<Longrightarrow> dropWhile P xs = xs"
  by (cases xs) simp_all

lemma trim_id:
  "s \<noteq> [] \<Longrightarrow> \<not> isWhiteSpace (hd s) \<Longrightarrow> \<not> isWhiteSpace (last s) \<Longrightarrow> trim s = s"
  by (simp add: trim_def dropWhile_hd_id hd_rev)

text \<open>
  Claim C9. \<open>splitMessage("a\n" + "b".repeat(3000), 1900)\<close>: the short line \<open>a\<close> is a chunk
  of its own, and the line of 3000 code units is cut into a slice of 1900 and the
  remainder of 1100.
\<close>

theorem C9_oversized_line:
  "splitMessage (js (''a'' @ [CHR 0x0A] @ replicate 3000 (CHR ''b''))) 1900
     = Some [js ''a'', js (replicate 1900 (CHR ''b'')), js (replicate 1100 (CHR ''b''))]"
  apply (simp add: js_def splitMessage_def)
  apply (simp add: split_newline_plain nl_def)
  apply (simp add: hardSlice.simps trim_id isWhiteSpace_def)
  done

section \<open>Properties of the policy\<close>

lemma admits_cases:
  "\<not> admits (s\<lparr>slashCommandMode := js ''required''\<rparr>) ch
   \<and> \<not> admits (s\<lparr>slashCommandMode := js ''activated'', activatedChannels := [js ''C1''],
                   channelMode := js ''all''\<rparr>) (js ''C2'')
   \<and> admits (s\<lparr>slashCommandMode := js ''activated'', activatedChannels := [js ''C1''],
                 channelMode := js ''all''\<rparr>) (js ''C1'')"
  by (simp add: admits_def js_def)

section \<open>Properties of the completion request builder\<close>

lemma generateAIResponse_request:
  "completions (snd (generateAIResponse svc message ctx pers rlen w))
     = completions w @ [completionRequest message ctx pers rlen]"
  by (simp add: generateAIResponse_def Let_def andThen_def ret_def consoleError_def
           split: sum.split list.split)

text \<open>
  Claim C6. The request \<open>generateAIResponse\<close> sends carries temperature 0.8 when the
  personality is \<open>creative\<close> and 0.7 otherwise, and at most 500 output tokens when the
  response length is \<open>concise\<close>, 1500 when it is \<open>detailed\<close>, 1000 otherwise.
\<close>

theorem C6_parameters:
  "temperature (last (completions (snd (generateAIResponse svc message ctx pers rlen w))))
     = (if pers = Some (js ''creative'') then 0.8 else 0.7)
   \<and> max_tokens (last (completions (snd (generateAIResponse svc message ctx pers rlen w))))
     = (if rlen = Some (js ''concise'') then 500
        else if rlen = Some (js ''detailed'') then 1500 else 1000)"
  by (simp add: generateAIResponse_request completionRequest_def js_def)

text \<open>
  Claim C7. The messages of the request are the system instruction, then the context
  messages with their stored roles, then the prompt with role \<open>user\<close>, unless the content
  of the last context message equals the prompt, in which case the prompt is not added.
\<close>

theorem C7_prompt_sequence:
  "request_messages (last (completions (snd (generateAIResponse svc message ctx pers rlen w))))
     = [\<lparr>param_role = js ''system'', param_content = systemPrompt pers rlen\<rparr>]
       @ map (\<lambda>m. \<lparr>param_role = role m, param_content = content m\<rparr>) ctx
       @ (if ctx \<noteq> [] \<and> content (last ctx) = message then []
          else [\<lparr>param_role = js ''user'', param_content = message\<rparr>])"
  by (simp add: generateAIResponse_request completionRequest_def conversationMessages_def)

lemma apology_fixed:
  "apology error \<in>
     {js ''I'm currently experiencing high demand. Please try again in a moment.'',
      js ''There's an issue with my configuration. Please contact the server administrator.'',
      js ''I encountered an error while processing your request. Please try again later.''}"
  by (cases error) (simp_all add: apology_def)

section \<open>Running the pipeline when every query and every send succeeds\<close>

lemma length_js: "length (js s) = length s"
  by (simp add: js_def)

lemma js_is_empty: "js s = [] \<longleftrightarrow> s = []"
  by (simp add: js_def)

lemmas io_defs = andThen_def ret_def tryCatch_def dbQuery_def gatewaySend_def consoleError_def
lemmas storage_defs = getUserByDiscordId_def createUser_def getConversationByChannelAndUser_def
  createConversation_def getMessagesByConversation_def createMessage_def getSettingsByGuildId_def
  createOrUpdateSettings_def getBotStats_def updateBotStats_def

lemmas select_defs = selectUser_def selectConversation_def selectMessages_def selectSettings_def
  selectBotStats_def

lemma sendChunks_ok:
  "sendFaults w = {} \<Longrightarrow>
   sendChunks ch cs w = (Inr (), w\<lparr>sends := sends w + length cs,
                                   effects := effects w @ map (ChannelSend ch) cs\<rparr>)"
  by (induction cs arbitrary: w) (simp_all add: io_defs)

lemma sendResponse_ok:
  assumes "sendFaults w = {}"
  shows "\<exists>k es. sendResponse m response w = (Inr (), w\<lparr>sends := k, effects := es\<rparr>)"
proof (cases "length response \<le> 1900")
  case True
  then show ?thesis using assms
    by (simp add: sendResponse_def io_defs) (metis (no_types) world.surjective world.update_convs)
next
  case False
  obtain c cs where "splitMessage response 1900 = Some (c # cs)"
    using splitMessage_returns [of 1900 response] by auto
  then show ?thesis using assms False
    by (simp add: sendResponse_def io_defs sendChunks_ok) blast
qed


lemma getOrCreateUser_ok:
  assumes "dbFaults w = {}"
  shows "\<exists>u us q. getOrCreateUser m w = (Inr u, w\<lparr>users := us, queries := q\<rparr>)"
proof (cases "selectUser (author_id m) w")
  case None
  define u where "u = \<lparr>user_id = nextId (map user_id (users w)), discordId = author_id m,
    username = author_username m\<rparr>"
  have "getOrCreateUser m w = (Inr u, w\<lparr>users := users w @ [u], queries := Suc (Suc (queries w))\<rparr>)"
    using assms None
    by (simp add: getOrCreateUser_def storage_defs select_defs io_defs Let_def u_def)
  then show ?thesis by blast
next
  case (Some u)
  have "getOrCreateUser m w = (Inr u, w\<lparr>users := users w, queries := Suc (queries w)\<rparr>)"
    using assms Some
    by (simp add: getOrCreateUser_def storage_defs select_defs io_defs Let_def)
  then show ?thesis by blast
qed

lemma getOrCreateConversation_ok:
  assumes "dbFaults w = {}"
  shows "\<exists>c cs q. getOrCreateConversation m w = (Inr c, w\<lparr>conversations := cs, queries := q\<rparr>)
           \<and> find (\<lambda>c. channelId c = channel_id m \<and> userId c = author_id m) (rev cs) = Some c
           \<and> (\<forall>c0. selectConversation (channel_id m) (author_id m) w = Some c0 \<longrightarrow> c0 = c)"
proof (cases "selectConversation (channel_id m) (author_id m) w")
  case None
  define c where "c = \<lparr>conversation_id = nextId (map conversation_id (conversations w)),
     userId = author_id m, channelId = channel_id m, guildId = orNull (guild_id m)\<rparr>"
  have "getOrCreateConversation m w
          = (Inr c, w\<lparr>conversations := conversations w @ [c], queries := Suc (Suc (queries w))\<rparr>)"
    using assms None
    by (simp add: getOrCreateConversation_def storage_defs select_defs io_defs Let_def c_def)
  moreover have "find (\<lambda>c. channelId c = channel_id m \<and> userId c = author_id m)
                   (rev (conversations w @ [c])) = Some c"
    by (simp add: c_def)
  moreover have "\<forall>c0. selectConversation (channel_id m) (author_id m) w = Some c0 \<longrightarrow> c0 = c"
    using None by simp
  ultimately show ?thesis by blast
next
  case (Some c)
  have "getOrCreateConversation m w
          = (Inr c, w\<lparr>conversations := conversations w, queries := Suc (queries w)\<rparr>)"
    using assms Some
    by (simp add: getOrCreateConversation_def storage_defs select_defs io_defs Let_def)
  moreover have "find (\<lambda>c. channelId c = channel_id m \<and> userId c = author_id m)
                   (rev (conversations w)) = Some c"
    using Some by (simp add: select_defs)
  moreover have "\<forall>c0. selectConversation (channel_id m) (author_id m) w = Some c0 \<longrightarrow> c0 = c"
    using Some by simp
  ultimately show ?thesis by blast
qed

lemma createMessage_ok:
  "dbFaults w = {} \<Longrightarrow>
   createMessage cid c r w =
     (Inr \<lparr>message_id = nextId (map message_id (messages w)), conversationId = cid,
            content = c, role = r\<rparr>,
      w\<lparr>messages := messages w @ [\<lparr>message_id = nextId (map message_id (messages w)),
            conversationId = cid, content = c, role = r\<rparr>],
        queries := Suc (queries w)\<rparr>)"
  by (simp add: storage_defs select_defs io_defs Let_def)

lemma getMessagesByConversation_ok:
  "dbFaults w = {} \<Longrightarrow>
   getMessagesByConversation cid w = (Inr (selectMessages cid w), w\<lparr>queries := Suc (queries w)\<rparr>)"
  by (simp add: storage_defs select_defs io_defs)

lemma getSettingsByGuildId_ok:
  "dbFaults w = {} \<Longrightarrow>
   getSettingsByGuildId g w = (Inr (selectSettings g w), w\<lparr>queries := Suc (queries w)\<rparr>)"
  by (simp add: storage_defs select_defs io_defs)

lemma generateAIResponse_ok:
  "\<exists>response es.
     generateAIResponse svc message ctx pers rlen w
       = (Inr response, w\<lparr>completions := completions w @ [completionRequest message ctx pers rlen],
                          effects := es\<rparr>)
     \<and> (\<forall>error. svc (length (completions w)) (completionRequest message ctx pers rlen) = Inl error
           \<longrightarrow> response = apology error)"
proof (cases "svc (length (completions w)) (completionRequest message ctx pers rlen)")
  case (Inl error)
  have "generateAIResponse svc message ctx pers rlen w
       = (Inr (apology error),
          w\<lparr>completions := completions w @ [completionRequest message ctx pers rlen],
            effects := effects w @ [ConsoleError (js ''Error generating AI response:'')]\<rparr>)"
    using Inl by (simp add: generateAIResponse_def Let_def io_defs)
  moreover have "\<forall>e. svc (length (completions w)) (completionRequest message ctx pers rlen) = Inl e
           \<longrightarrow> apology error = apology e"
    using Inl by simp
  ultimately show ?thesis by blast
next
  case (Inr choices)
  then have never: "\<forall>e. svc (length (completions w)) (completionRequest message ctx pers rlen) = Inl e
           \<longrightarrow> r = apology e" for r
    by simp
  have "\<exists>response es. generateAIResponse svc message ctx pers rlen w
       = (Inr response, w\<lparr>completions := completions w @ [completionRequest message ctx pers rlen],
                          effects := es\<rparr>)"
  proof (cases choices)
    case Nil
    have "generateAIResponse svc message ctx pers rlen w
       = (Inr (apology (ErrorObject (js ''Cannot read properties of undefined (reading 'message')''))),
          w\<lparr>completions := completions w @ [completionRequest message ctx pers rlen],
            effects := effects w @ [ConsoleError (js ''Error generating AI response:'')]\<rparr>)"
      using Inr Nil by (simp add: generateAIResponse_def Let_def io_defs)
    then show ?thesis by blast
  next
    case (Cons choice rest)
    define r where "r = (case choice of
                    None \<Rightarrow> js ''I apologize, but I couldn't generate a response. Please try again.''
                  | Some c \<Rightarrow>
                      if c = []
                      then js ''I apologize, but I couldn't generate a response. Please try again.''
                      else c)"
    have "generateAIResponse svc message ctx pers rlen w
       = (Inr r, w\<lparr>completions := completions w @ [completionRequest message ctx pers rlen],
            effects := effects w\<rparr>)"
      using Inr Cons by (simp add: generateAIResponse_def Let_def io_defs r_def)
    then show ?thesis by blast
  qed
  with never show ?thesis by blast
qed

lemma updateStats_ok:
  assumes "dbFaults w = {}"
  shows "\<exists>bs q. updateStats w = (Inr (), w\<lparr>botStats := bs, queries := q\<rparr>)
           \<and> bs \<noteq> []
           \<and> totalMessages (last bs)
               = (case selectBotStats w of Some e \<Rightarrow> totalMessages e | None \<Rightarrow> 1)
           \<and> apiCalls (last bs)
               = (case selectBotStats w of Some e \<Rightarrow> apiCalls e | None \<Rightarrow> 1)"
proof (cases "botStats w = []")
  case True
  define b where "b = \<lparr>botStats_id = nextId [], totalServers = 0, totalMessages = 1,
    activeConversations = 0, apiCalls = 1, uptime = 0\<rparr>"
  have "updateStats w = (Inr (), w\<lparr>botStats := [b], queries := Suc (Suc (Suc (Suc (queries w))))\<rparr>)"
    using True assms
    by (simp add: updateStats_def storage_defs select_defs io_defs Let_def b_def applyUpdate_def)
  moreover have "totalMessages (last [b]) = (case selectBotStats w of Some e \<Rightarrow> totalMessages e | None \<Rightarrow> 1)"
    "apiCalls (last [b]) = (case selectBotStats w of Some e \<Rightarrow> apiCalls e | None \<Rightarrow> 1)"
    "[b] \<noteq> []"
    using True by (simp_all add: select_defs b_def)
  ultimately show ?thesis by blast
next
  case False
  define e where "e = last (botStats w)"
  define u where "u = \<lparr>set_totalServers = None, set_totalMessages = Some (totalMessages e),
    set_activeConversations = None, set_apiCalls = Some (apiCalls e), set_uptime = None\<rparr>"
  define bs where "bs = filter (\<lambda>b. botStats_id b \<noteq> botStats_id e) (botStats w)
                  @ map (applyUpdate u) (filter (\<lambda>b. botStats_id b = botStats_id e) (botStats w))"
  have "updateStats w = (Inr (), w\<lparr>botStats := bs, queries := Suc (Suc (Suc (Suc (queries w))))\<rparr>)"
    using False assms
    by (simp add: updateStats_def storage_defs select_defs io_defs Let_def bs_def u_def e_def)
  moreover have hit: "filter (\<lambda>b. botStats_id b = botStats_id e) (botStats w) \<noteq> []"
    using False by (auto simp: e_def filter_empty_conv intro!: bexI [of _ "last (botStats w)"])
  then have "bs \<noteq> []" by (simp add: bs_def)
  moreover have "last bs = applyUpdate u (last (filter (\<lambda>b. botStats_id b = botStats_id e) (botStats w)))"
    using hit by (simp add: bs_def last_map)
  then have "totalMessages (last bs) = totalMessages e" "apiCalls (last bs) = apiCalls e"
    by (simp_all add: applyUpdate_def u_def)
  then have "totalMessages (last bs) = (case selectBotStats w of Some e \<Rightarrow> totalMessages e | None \<Rightarrow> 1)"
    "apiCalls (last bs) = (case selectBotStats w of Some e \<Rightarrow> apiCalls e | None \<Rightarrow> 1)"
    using False by (simp_all add: select_defs e_def)
  ultimately show ?thesis by blast
qed


lemma handleMessage_ok:
  assumes db: "dbFaults w = {}" and tx: "sendFaults w = {}"
  shows "\<exists>c response i1 i2.
    fst (handleMessage svc m p w) = Inr ()
    \<and> selectConversation (channel_id m) (author_id m) (snd (handleMessage svc m p w)) = Some c
    \<and> (\<forall>c0. selectConversation (channel_id m) (author_id m) w = Some c0 \<longrightarrow> c0 = c)
    \<and> messages (snd (handleMessage svc m p w))
        = messages w
          @ [\<lparr>message_id = i1, conversationId = conversation_id c,
               content = message_content m, role = js ''user''\<rparr>,
             \<lparr>message_id = i2, conversationId = conversation_id c,
               content = response, role = js ''assistant''\<rparr>]
    \<and> completions (snd (handleMessage svc m p w))
        = completions w
          @ [completionRequest (message_content m)
               (slice_last 10 (selectMessages (conversation_id c) w
                  @ [\<lparr>message_id = i1, conversationId = conversation_id c,
                       content = message_content m, role = js ''user''\<rparr>]))
               (map_option personality (selectSettings (orElse (guild_id m) (js ''DM'')) w))
               (map_option responseLength (selectSettings (orElse (guild_id m) (js ''DM'')) w))]
    \<and> (\<forall>error. svc (length (completions w))
           (completionRequest (message_content m)
               (slice_last 10 (selectMessages (conversation_id c) w
                  @ [\<lparr>message_id = i1, conversationId = conversation_id c,
                       content = message_content m, role = js ''user''\<rparr>]))
               (map_option personality (selectSettings (orElse (guild_id m) (js ''DM'')) w))
               (map_option responseLength (selectSettings (orElse (guild_id m) (js ''DM'')) w)))
           = Inl error \<longrightarrow> response = apology error)
    \<and> dbFaults (snd (handleMessage svc m p w)) = {}
    \<and> sendFaults (snd (handleMessage svc m p w)) = {}
    \<and> settings (snd (handleMessage svc m p w)) = settings w
    \<and> botStats (snd (handleMessage svc m p w)) \<noteq> []
    \<and> totalMessages (last (botStats (snd (handleMessage svc m p w))))
        = (case selectBotStats w of Some e \<Rightarrow> totalMessages e | None \<Rightarrow> 1)
    \<and> apiCalls (last (botStats (snd (handleMessage svc m p w))))
        = (case selectBotStats w of Some e \<Rightarrow> apiCalls e | None \<Rightarrow> 1)"
proof -
  define g where "g = orElse (guild_id m) (js ''DM'')"
  from getOrCreateUser_ok [OF db] obtain u us q1
    where s1: "getOrCreateUser m w = (Inr u, w\<lparr>users := us, queries := q1\<rparr>)"
    by blast
  define w1 where "w1 = w\<lparr>users := us, queries := q1\<rparr>"
  have db1: "dbFaults w1 = {}" by (simp add: w1_def db)
  from getOrCreateConversation_ok [OF db1] obtain c cs q2
    where s2: "getOrCreateConversation m w1 = (Inr c, w1\<lparr>conversations := cs, queries := q2\<rparr>)"
      and found: "find (\<lambda>c. channelId c = channel_id m \<and> userId c = author_id m) (rev cs) = Some c"
      and old: "\<forall>c0. selectConversation (channel_id m) (author_id m) w1 = Some c0 \<longrightarrow> c0 = c"
    by blast
  define w2 where "w2 = w1\<lparr>conversations := cs, queries := q2\<rparr>"
  have db2: "dbFaults w2 = {}" by (simp add: w2_def db1)
  define U where "U = \<lparr>message_id = nextId (map message_id (messages w2)),
    conversationId = conversation_id c, content = message_content m, role = js ''user''\<rparr>"
  define w3 where "w3 = w2\<lparr>messages := messages w2 @ [U], queries := Suc (queries w2)\<rparr>"
  have s3: "createMessage (conversation_id c) (message_content m) (js ''user'') w2 = (Inr U, w3)"
    by (simp add: createMessage_ok [OF db2] U_def w3_def)
  have db3: "dbFaults w3 = {}" by (simp add: w3_def db2)
  define w4 where "w4 = w3\<lparr>queries := Suc (queries w3)\<rparr>"
  have s4: "getMessagesByConversation (conversation_id c) w3
              = (Inr (selectMessages (conversation_id c) w3), w4)"
    by (simp add: getMessagesByConversation_ok [OF db3] w4_def)
  have db4: "dbFaults w4 = {}" by (simp add: w4_def db3)
  define w5 where "w5 = w4\<lparr>queries := Suc (queries w4)\<rparr>"
  have s5: "getSettingsByGuildId g w4 = (Inr (selectSettings g w4), w5)"
    by (simp add: getSettingsByGuildId_ok [OF db4] w5_def)
  define req where "req = completionRequest (message_content m)
      (slice_last 10 (selectMessages (conversation_id c) w3))
      (map_option personality (selectSettings g w4))
      (map_option responseLength (selectSettings g w4))"
  from generateAIResponse_ok [of svc "message_content m"
      "slice_last 10 (selectMessages (conversation_id c) w3)"
      "map_option personality (selectSettings g w4)"
      "map_option responseLength (selectSettings g w4)" w5]
  obtain response es
    where s6: "generateAIResponse svc (message_content m)
                 (slice_last 10 (selectMessages (conversation_id c) w3))
                 (map_option personality (selectSettings g w4))
                 (map_option responseLength (selectSettings g w4)) w5
               = (Inr response, w5\<lparr>completions := completions w5 @ [req], effects := es\<rparr>)"
      and failed: "\<forall>error. svc (length (completions w5)) req = Inl error
                     \<longrightarrow> response = apology error"
    unfolding req_def by blast
  define w6 where "w6 = w5\<lparr>completions := completions w5 @ [req], effects := es\<rparr>"
  have db6: "dbFaults w6 = {}" by (simp add: w6_def w5_def db4)
  define A where "A = \<lparr>message_id = nextId (map message_id (messages w6)),
    conversationId = conversation_id c, content = response, role = js ''assistant''\<rparr>"
  define w7 where "w7 = w6\<lparr>messages := messages w6 @ [A], queries := Suc (queries w6)\<rparr>"
  have s7: "createMessage (conversation_id c) response (js ''assistant'') w6 = (Inr A, w7)"
    by (simp add: createMessage_ok [OF db6] A_def w7_def)
  have tx7: "sendFaults w7 = {}"
    by (simp add: w7_def w6_def w5_def w4_def w3_def w2_def w1_def tx)
  from sendResponse_ok [OF tx7] obtain k es'
    where s8: "sendResponse m response w7 = (Inr (), w7\<lparr>sends := k, effects := es'\<rparr>)"
    by blast
  define w8 where "w8 = w7\<lparr>sends := k, effects := es'\<rparr>"
  have db8: "dbFaults w8 = {}" by (simp add: w8_def w7_def db6)
  from updateStats_ok [OF db8] obtain bs q9
    where s9: "updateStats w8 = (Inr (), w8\<lparr>botStats := bs, queries := q9\<rparr>)"
      and bs: "bs \<noteq> []"
        "totalMessages (last bs) = (case selectBotStats w8 of Some e \<Rightarrow> totalMessages e | None \<Rightarrow> 1)"
        "apiCalls (last bs) = (case selectBotStats w8 of Some e \<Rightarrow> apiCalls e | None \<Rightarrow> 1)"
    by blast
  define w9 where "w9 = w8\<lparr>botStats := bs, queries := q9\<rparr>"
  have run: "handleMessage svc m p w = (Inr (), w9)"
    unfolding handleMessage_def handleMessage_try_def g_def [symmetric]
    by (simp add: tryCatch_def andThen_def s1 [folded w1_def] s2 [folded w2_def] s3 s4 s5
          s6 [folded w6_def] s7 s8 [folded w8_def] s9 [folded w9_def])
  have unfold: "w9 = w\<lparr>users := us, conversations := cs, messages := messages w @ [U, A],
      botStats := bs, queries := q9, sends := k,
      completions := completions w @ [req], effects := es'\<rparr>"
    by (simp add: w9_def w8_def w7_def w6_def w5_def w4_def w3_def w2_def w1_def)
  have U: "\<lparr>message_id = message_id U, conversationId = conversation_id c,
    content = message_content m, role = js ''user''\<rparr> = U"
    by (simp add: U_def)
  have A: "\<lparr>message_id = message_id A, conversationId = conversation_id c,
    content = response, role = js ''assistant''\<rparr> = A"
    by (simp add: A_def)
  have req: "req = completionRequest (message_content m)
      (slice_last 10 (selectMessages (conversation_id c) w @ [U]))
      (map_option personality (selectSettings g w))
      (map_option responseLength (selectSettings g w))"
    by (simp add: req_def select_defs w4_def w3_def w2_def w1_def) (simp add: U_def)
  have c1: "selectConversation (channel_id m) (author_id m) w9 = Some c"
    using found by (simp add: unfold select_defs)
  have c2: "\<forall>c0. selectConversation (channel_id m) (author_id m) w = Some c0 \<longrightarrow> c0 = c"
    using old by (simp add: select_defs w1_def)
  have c3: "\<forall>error. svc (length (completions w)) req = Inl error \<longrightarrow> response = apology error"
    using failed by (simp add: w5_def w4_def w3_def w2_def w1_def)
  have c4: "totalMessages (last bs) = (case selectBotStats w of Some e \<Rightarrow> totalMessages e | None \<Rightarrow> 1)"
    "apiCalls (last bs) = (case selectBotStats w of Some e \<Rightarrow> apiCalls e | None \<Rightarrow> 1)"
    using bs(2,3)
    by (simp_all add: select_defs w8_def w7_def w6_def w5_def w4_def w3_def w2_def w1_def)
  have c5: "messages w9 = messages w @ [U, A]" "completions w9 = completions w @ [req]"
    "dbFaults w9 = {}" "sendFaults w9 = {}" "settings w9 = settings w" "botStats w9 = bs"
    by (simp_all add: unfold db tx)
  show ?thesis
    apply (rule exI [of _ c], rule exI [of _ response])
    apply (rule exI [of _ "message_id U"], rule exI [of _ "message_id A"])
    using c1 c2 c3 c4 c5 bs(1)
    by (simp add: run U A req [symmetric] g_def [symmetric])
qed

lemma slice_last_map: "slice_last n (map f xs) = map f (slice_last n xs)"
  by (simp add: slice_last_def drop_map)

lemma slice_last_append: "slice_last (n + length ys) (xs @ ys) = slice_last n xs @ ys"
  by (simp add: slice_last_def)

lemma slice_last_snoc: "slice_last (Suc n) (xs @ [x]) = slice_last n xs @ [x]"
  using slice_last_append [of n "[x]" xs] by simp

lemma contextOf_request:
  "contextOf (completionRequest t (slice_last 10 (xs @ [\<lparr>message_id = i, conversationId = cid,
       content = t, role = js ''user''\<rparr>])) pers rlen)
   = slice_last 10 (map (\<lambda>m. (role m, content m)) xs @ [(js ''user'', t)])"
proof -
  have ten: "(10::nat) = Suc 9" by simp
  show ?thesis
    unfolding ten slice_last_snoc
    by (simp add: contextOf_def completionRequest_def conversationMessages_def slice_last_map
        o_def)
qed

lemma turn_ok:
  assumes db: "dbFaults w = {}" and tx: "sendFaults w = {}"
  shows "\<exists>c response.
    selectConversation (channel_id m) (author_id m) (turn svc m w) = Some c
    \<and> (\<forall>c0. selectConversation (channel_id m) (author_id m) w = Some c0 \<longrightarrow> c0 = c)
    \<and> transcript (conversation_id c) (turn svc m w)
        = transcript (conversation_id c) w
          @ [(js ''user'', message_content m), (js ''assistant'', response)]
    \<and> length (completions (turn svc m w)) = Suc (length (completions w))
    \<and> contextOf (last (completions (turn svc m w)))
        = slice_last 10 (transcript (conversation_id c) w @ [(js ''user'', message_content m)])
    \<and> (\<forall>error. (\<forall>request. svc (length (completions w)) request = Inl error)
          \<longrightarrow> response = apology error)
    \<and> dbFaults (turn svc m w) = {} \<and> sendFaults (turn svc m w) = {}"
proof -
  from handleMessage_ok [OF db tx, of svc m "js []"]
  obtain c response i1 i2 where
    c: "selectConversation (channel_id m) (author_id m) (turn svc m w) = Some c"
      "\<forall>c0. selectConversation (channel_id m) (author_id m) w = Some c0 \<longrightarrow> c0 = c"
    and msgs: "messages (turn svc m w)
        = messages w
          @ [\<lparr>message_id = i1, conversationId = conversation_id c,
               content = message_content m, role = js ''user''\<rparr>,
             \<lparr>message_id = i2, conversationId = conversation_id c,
               content = response, role = js ''assistant''\<rparr>]"
    and reqs: "completions (turn svc m w)
        = completions w
          @ [completionRequest (message_content m)
               (slice_last 10 (selectMessages (conversation_id c) w
                  @ [\<lparr>message_id = i1, conversationId = conversation_id c,
                       content = message_content m, role = js ''user''\<rparr>]))
               (map_option personality (selectSettings (orElse (guild_id m) (js ''DM'')) w))
               (map_option responseLength (selectSettings (orElse (guild_id m) (js ''DM'')) w))]"
    and failed: "\<forall>error. svc (length (completions w))
           (completionRequest (message_content m)
               (slice_last 10 (selectMessages (conversation_id c) w
                  @ [\<lparr>message_id = i1, conversationId = conversation_id c,
                       content = message_content m, role = js ''user''\<rparr>]))
               (map_option personality (selectSettings (orElse (guild_id m) (js ''DM'')) w))
               (map_option responseLength (selectSettings (orElse (guild_id m) (js ''DM'')) w)))
           = Inl error \<longrightarrow> response = apology error"
    and ok: "dbFaults (turn svc m w) = {}" "sendFaults (turn svc m w) = {}"
    unfolding turn_def by blast
  have t: "transcript (conversation_id c) (turn svc m w)
        = transcript (conversation_id c) w
          @ [(js ''user'', message_content m), (js ''assistant'', response)]"
    by (simp add: transcript_def selectMessages_def msgs)
  have n: "length (completions (turn svc m w)) = Suc (length (completions w))"
    by (simp add: reqs)
  have x: "contextOf (last (completions (turn svc m w)))
        = slice_last 10 (transcript (conversation_id c) w @ [(js ''user'', message_content m)])"
    by (simp add: reqs contextOf_request transcript_def)
  have f: "\<forall>error. (\<forall>request. svc (length (completions w)) request = Inl error)
          \<longrightarrow> response = apology error"
    using failed by blast
  from c t n x f ok show ?thesis by blast
qed

lemma turns_ok:
  assumes "dbFaults w = {}" and "sendFaults w = {}"
    and "\<forall>m \<in> set ms. channel_id m = ch \<and> author_id m = u"
    and "selectConversation ch u w = Some c"
  shows "selectConversation ch u (turns svc ms w) = Some c
     \<and> dbFaults (turns svc ms w) = {} \<and> sendFaults (turns svc ms w) = {}
     \<and> (\<exists>rs. length rs = length ms
           \<and> transcript (conversation_id c) (turns svc ms w)
              = transcript (conversation_id c) w
                @ concat (map2 (\<lambda>m r. [(js ''user'', message_content m), (js ''assistant'', r)])
                            ms rs))"
  using assms
proof (induction ms arbitrary: w)
  case Nil
  then show ?case by (simp add: turns_def)
next
  case (Cons m ms)
  from Cons.prems have m: "channel_id m = ch" "author_id m = u" by simp_all
  from turn_ok [OF Cons.prems(1,2), of m svc] m Cons.prems(4)
  obtain r where
    c: "selectConversation ch u (turn svc m w) = Some c"
    and t: "transcript (conversation_id c) (turn svc m w)
        = transcript (conversation_id c) w
          @ [(js ''user'', message_content m), (js ''assistant'', r)]"
    and ok: "dbFaults (turn svc m w) = {}" "sendFaults (turn svc m w) = {}"
    by auto
  from Cons.prems(3) have rest: "\<forall>m \<in> set ms. channel_id m = ch \<and> author_id m = u"
    by simp
  from Cons.IH [OF ok rest c] obtain rs where
    c': "selectConversation ch u (turns svc ms (turn svc m w)) = Some c"
    and ok': "dbFaults (turns svc ms (turn svc m w)) = {}"
      "sendFaults (turns svc ms (turn svc m w)) = {}"
    and rs: "length rs = length ms"
    and t': "transcript (conversation_id c) (turns svc ms (turn svc m w))
              = transcript (conversation_id c) (turn svc m w)
                @ concat (map2 (\<lambda>m r. [(js ''user'', message_content m), (js ''assistant'', r)])
                            ms rs)"
    by blast
  have step: "turns svc (m # ms) w = turns svc ms (turn svc m w)"
    by (simp add: turns_def)
  have "length (r # rs) = length (m # ms)" using rs by simp
  moreover have "transcript (conversation_id c) (turns svc (m # ms) w)
              = transcript (conversation_id c) w
                @ concat (map2 (\<lambda>m r. [(js ''user'', message_content m), (js ''assistant'', r)])
                            (m # ms) (r # rs))"
    by (simp add: step t' t)
  ultimately show ?case using c' ok' unfolding step by blast
qed

lemmas run_defs = handleMessage_def handleMessage_try_def getOrCreateUser_def getOrCreateConversation_def
  sendResponse_def updateStats_def generateAIResponse_def completionRequest_def
  conversationMessages_def storage_defs select_defs io_defs applyUpdate_def
  slice_last_def nextId_def orElse_def orNull_def Let_def
  emptyWorld_def okService_def downService_def plainMessage_def turn_def turns_def

lemma counters_unchanged:
  assumes "dbFaults w = {}" and "sendFaults w = {}" and "botStats w \<noteq> []"
  shows "totalMessages (last (botStats (turn svc m w))) = totalMessages (last (botStats w))
     \<and> apiCalls (last (botStats (turn svc m w))) = apiCalls (last (botStats w))"
  using handleMessage_ok [OF assms(1,2), of svc m "js []"] assms(3)
  by (auto simp: turn_def selectBotStats_def)

section \<open>Usage counters\<close>

text \<open>
  Claim C1 says that each handled message adds one to \<open>totalMessages\<close> and to \<open>apiCalls\<close>.
  Evaluated on the store left by the \<open>ClientReady\<close> handler, where both counters are 0:
  the message is handled without error and both counters are still 0 (lemma
  \<open>counters_unchanged\<close> shows the same for every store that has a counters row).
\<close>

theorem C1_counters_stuck:
  "fst (handleMessage okService (plainMessage (js ''hi'')) (js []) readyWorld) = Inr ()
   \<and> totalMessages (last (botStats (turn okService (plainMessage (js ''hi'')) readyWorld))) = 0
   \<and> apiCalls (last (botStats (turn okService (plainMessage (js ''hi'')) readyWorld))) = 0"
  by (simp add: run_defs readyWorld_def length_js js_is_empty)

section \<open>Storage failures\<close>

lemma handleMessage_storage_failure:
  assumes fault: "\<exists>i \<in> dbFaults w. queries w \<le> i \<and> i < queries w + queriesBeforeCompletion m w"
    and send: "sends w \<notin> sendFaults w"
  shows "fst (handleMessage_try svc m w) = Inl StorageUnavailable
     \<and> completions (snd (handleMessage_try svc m w)) = completions w
     \<and> fst (handleMessage svc m p w) = Inr ()
     \<and> completions (snd (handleMessage svc m p w)) = completions w
     \<and> effects (snd (handleMessage svc m p w))
        = effects w @ [ConsoleError (js ''Error handling message:''),
            MessageReply (js ''Sorry, I encountered an error while processing your message. Please try again later.'')]"
proof -
  from fault obtain i where i: "i \<in> dbFaults w" "queries w \<le> i"
    "i < queries w + queriesBeforeCompletion m w" by blast
  show ?thesis
  proof (cases "selectUser (author_id m) w")
    case None
    note user = this
    show ?thesis
    proof (cases "selectConversation (channel_id m) (author_id m) w")
      case None
      from i user None have "i = queries w \<or> i = Suc (queries w) \<or> i = Suc (Suc (queries w)) \<or> i = Suc (Suc (Suc (queries w))) \<or> i = Suc (Suc (Suc (Suc (queries w)))) \<or> i = Suc (Suc (Suc (Suc (Suc (queries w))))) \<or> i = Suc (Suc (Suc (Suc (Suc (Suc (queries w))))))"
        by (auto simp: queriesBeforeCompletion_def)
      with i(1) have "queries w \<in> dbFaults w \<or> Suc (queries w) \<in> dbFaults w \<or> Suc (Suc (queries w)) \<in> dbFaults w \<or> Suc (Suc (Suc (queries w))) \<in> dbFaults w \<or> Suc (Suc (Suc (Suc (queries w)))) \<in> dbFaults w \<or> Suc (Suc (Suc (Suc (Suc (queries w))))) \<in> dbFaults w \<or> Suc (Suc (Suc (Suc (Suc (Suc (queries w)))))) \<in> dbFaults w"
        by auto
      then show ?thesis using user None send
        by (auto simp add: handleMessage_def handleMessage_try_def getOrCreateUser_def
            getOrCreateConversation_def
            storage_defs select_defs io_defs Let_def)
    next
      case (Some c)
      from i user Some have "i = queries w \<or> i = Suc (queries w) \<or> i = Suc (Suc (queries w)) \<or> i = Suc (Suc (Suc (queries w))) \<or> i = Suc (Suc (Suc (Suc (queries w)))) \<or> i = Suc (Suc (Suc (Suc (Suc (queries w)))))"
        by (auto simp: queriesBeforeCompletion_def)
      with i(1) have "queries w \<in> dbFaults w \<or> Suc (queries w) \<in> dbFaults w \<or> Suc (Suc (queries w)) \<in> dbFaults w \<or> Suc (Suc (Suc (queries w))) \<in> dbFaults w \<or> Suc (Suc (Suc (Suc (queries w)))) \<in> dbFaults w \<or> Suc (Suc (Suc (Suc (Suc (queries w))))) \<in> dbFaults w"
        by auto
      then show ?thesis using user Some send
        by (auto simp add: handleMessage_def handleMessage_try_def getOrCreateUser_def
            getOrCreateConversation_def
            storage_defs select_defs io_defs Let_def)
    qed
  next
    case (Some u)
    note user = this
    show ?thesis
    proof (cases "selectConversation (channel_id m) (author_id m) w")
      case None
      from i user None have "i = queries w \<or> i = Suc (queries w) \<or> i = Suc (Suc (queries w)) \<or> i = Suc (Suc (Suc (queries w))) \<or> i = Suc (Suc (Suc (Suc (queries w)))) \<or> i = Suc (Suc (Suc (Suc (Suc (queries w)))))"
        by (auto simp: queriesBeforeCompletion_def)
      with i(1) have "queries w \<in> dbFaults w \<or> Suc (queries w) \<in> dbFaults w \<or> Suc (Suc (queries w)) \<in> dbFaults w \<or> Suc (Suc (Suc (queries w))) \<in> dbFaults w \<or> Suc (Suc (Suc (Suc (queries w)))) \<in> dbFaults w \<or> Suc (Suc (Suc (Suc (Suc (queries w))))) \<in> dbFaults w"
        by auto
      then show ?thesis using user None send
        by (auto simp add: handleMessage_def handleMessage_try_def getOrCreateUser_def
            getOrCreateConversation_def
            storage_defs select_defs io_defs Let_def)
    next
      case (Some c)
      from i user Some have "i = queries w \<or> i = Suc (queries w) \<or> i = Suc (Suc (queries w)) \<or> i = Suc (Suc (Suc (queries w))) \<or> i = Suc (Suc (Suc (Suc (queries w))))"
        by (auto simp: queriesBeforeCompletion_def)
      with i(1) have "queries w \<in> dbFaults w \<or> Suc (queries w) \<in> dbFaults w \<or> Suc (Suc (queries w)) \<in> dbFaults w \<or> Suc (Suc (Suc (queries w))) \<in> dbFaults w \<or> Suc (Suc (Suc (Suc (queries w)))) \<in> dbFaults w"
        by auto
      then show ?thesis using user Some send
        by (auto simp add: handleMessage_def handleMessage_try_def getOrCreateUser_def
            getOrCreateConversation_def
            storage_defs select_defs io_defs Let_def)
    qed
  qed
qed

lemma onMessageCreate_policy:
  assumes "\<not> author_bot m" and "queries w \<notin> dbFaults w"
    and "selectSettings (orElse (guild_id m) (js ''DM'')) w = Some s"
  shows "onMessageCreate svc m w
     = (if admits s (channel_id m)
        then tryCatch (handleMessage svc m (js [])) (\<lambda>error. consoleError (js ''Error handling message:''))
               (w\<lparr>queries := Suc (queries w)\<rparr>)
        else (Inr (), w\<lparr>queries := Suc (queries w)\<rparr>))"
  using assms
  by (simp add: onMessageCreate_def getSettingsByGuildId_def select_defs io_defs)

lemma onMessageCreate_denied:
  assumes "selectSettings (orElse (guild_id m) (js ''DM'')) w = Some s"
    and "\<not> admits s (channel_id m)"
  shows "fst (onMessageCreate svc m w) = Inr ()
     \<and> completions (snd (onMessageCreate svc m w)) = completions w
     \<and> sends (snd (onMessageCreate svc m w)) = sends w"
  using assms
  by (simp add: onMessageCreate_def getSettingsByGuildId_def select_defs io_defs)

lemma onMessageCreate_admitted:
  assumes "selectSettings (orElse (guild_id m) (js ''DM'')) w = Some s"
    and "admits s (channel_id m)" and "\<not> author_bot m"
    and db: "dbFaults w = {}" and tx: "sendFaults w = {}"
  shows "fst (onMessageCreate svc m w) = Inr ()
     \<and> length (completions (snd (onMessageCreate svc m w))) = Suc (length (completions w))"
proof -
  define w' where "w' = w\<lparr>queries := Suc (queries w)\<rparr>"
  have ok: "dbFaults w' = {}" "sendFaults w' = {}"
    by (simp_all add: w'_def db tx)
  from handleMessage_ok [OF ok, of svc m "js []"]
  have run: "fst (handleMessage svc m (js []) w') = Inr ()"
    "length (completions (snd (handleMessage svc m (js []) w'))) = Suc (length (completions w'))"
    by auto
  have "onMessageCreate svc m w
          = tryCatch (handleMessage svc m (js []))
              (\<lambda>error. consoleError (js ''Error handling message:'')) w'"
    using assms(1-3) db by (simp add: onMessageCreate_policy w'_def)
  also have "\<dots> = handleMessage svc m (js []) w'"
    using run(1) by (cases "handleMessage svc m (js []) w'") (simp add: tryCatch_def)
  finally show ?thesis using run by (simp add: w'_def)
qed

lemma onMessageCreate_bot:
  "author_bot m \<Longrightarrow> onMessageCreate svc m w = (Inr (), w)"
  by (simp add: onMessageCreate_def ret_def)

lemma onMessageCreate_settings_failure:
  assumes human: "\<not> author_bot m"
    and fault: "\<exists>i \<in> dbFaults w. queries w \<le> i \<and> i < queries w + queriesBeforeChecks m w"
  shows "fst (onMessageCreate svc m w) = Inr ()
     \<and> completions (snd (onMessageCreate svc m w)) = completions w
     \<and> sends (snd (onMessageCreate svc m w)) = sends w
     \<and> effects (snd (onMessageCreate svc m w))
         = effects w @ [ConsoleError (js ''Error handling message:'')]"
proof -
  from fault obtain i where i: "i \<in> dbFaults w" "queries w \<le> i"
    "i < queries w + queriesBeforeChecks m w" by blast
  show ?thesis
  proof (cases "selectSettings (orElse (guild_id m) (js ''DM'')) w")
    case (Some s)
    with i(2,3) have "i = queries w"
      by (simp add: queriesBeforeChecks_def)
    with i(1) have "queries w \<in> dbFaults w"
      by simp
    then show ?thesis using human
      by (simp add: onMessageCreate_def getSettingsByGuildId_def io_defs)
  next
    case None
    with i have "i = queries w \<or> i = Suc (queries w) \<or> i = Suc (Suc (queries w))"
      by (auto simp: queriesBeforeChecks_def)
    with i(1) have "queries w \<in> dbFaults w \<or> Suc (queries w) \<in> dbFaults w
        \<or> Suc (Suc (queries w)) \<in> dbFaults w"
      by auto
    then show ?thesis using human None
      by (auto simp add: onMessageCreate_def getSettingsByGuildId_def createOrUpdateSettings_def
          select_defs io_defs Let_def defaultSettings_def)
  qed
qed

text \<open>
  Counterexample to claim C2 as stated, on the empty store. When the fourth query fails (the
  first of \<open>handleMessage\<close>, after the handler has read and created the settings), the
  failure is logged and a reply is sent. When the eleventh query fails (the one that
  stores the reply of the assistant), the completion request has been made before.
\<close>

theorem C2_reply_counterexample:
  "effects (snd (onMessageCreate okService (plainMessage (js ''hi''))
                   (emptyWorld\<lparr>dbFaults := {3}\<rparr>)))
     = [ConsoleError (js ''Error handling message:''),
        MessageReply (js ''Sorry, I encountered an error while processing your message. Please try again later.'')]
   \<and> length (completions (snd (onMessageCreate okService (plainMessage (js ''hi''))
                                 (emptyWorld\<lparr>dbFaults := {10}\<rparr>)))) = 1
   \<and> effects (snd (onMessageCreate okService (plainMessage (js ''hi''))
                     (emptyWorld\<lparr>dbFaults := {10}\<rparr>)))
     = [ConsoleError (js ''Error handling message:''),
        MessageReply (js ''Sorry, I encountered an error while processing your message. Please try again later.'')]"
  by (simp add: onMessageCreate_def admits_def defaultSettings_def run_defs js_def)

text \<open>
  Claim C2, amended. If one of the queries that \<open>handleMessage\<close> issues before the
  completion call fails and the send of the reply succeeds, the \<open>try\<close> block throws
  \<open>StorageUnavailable\<close>, no completion request is made, the failure is logged and the
  fixed apology is sent as a reply. If one of the queries of the MessageCreate handler itself fails (the
  settings lookup, or the creation of the default settings) on a message that is not from
  a bot, the failure is logged, nothing is sent and no completion request is made.
\<close>

theorem C2_storage_failure:
  "((\<exists>i \<in> dbFaults w. queries w \<le> i \<and> i < queries w + queriesBeforeCompletion m w)
      \<and> sends w \<notin> sendFaults w
    \<longrightarrow> fst (handleMessage_try svc m w) = Inl StorageUnavailable
        \<and> completions (snd (handleMessage_try svc m w)) = completions w
        \<and> fst (handleMessage svc m p w) = Inr ()
        \<and> completions (snd (handleMessage svc m p w)) = completions w
        \<and> effects (snd (handleMessage svc m p w))
            = effects w @ [ConsoleError (js ''Error handling message:''),
                MessageReply (js ''Sorry, I encountered an error while processing your message. Please try again later.'')])
   \<and> (\<not> author_bot m
      \<and> (\<exists>i \<in> dbFaults w. queries w \<le> i \<and> i < queries w + queriesBeforeChecks m w)
    \<longrightarrow> fst (onMessageCreate svc m w) = Inr ()
        \<and> completions (snd (onMessageCreate svc m w)) = completions w
        \<and> sends (snd (onMessageCreate svc m w)) = sends w
        \<and> effects (snd (onMessageCreate svc m w))
            = effects w @ [ConsoleError (js ''Error handling message:'')])"
  using handleMessage_storage_failure [of w m svc p]
    onMessageCreate_settings_failure [of m w svc]
  by blast

theorem C2_storage_failure_witness:
  "((\<exists>i \<in> dbFaults (emptyWorld\<lparr>dbFaults := {2}\<rparr>).
        queries (emptyWorld\<lparr>dbFaults := {2}\<rparr>) \<le> i
        \<and> i < queries (emptyWorld\<lparr>dbFaults := {2}\<rparr>)
              + queriesBeforeCompletion (plainMessage (js ''hi'')) (emptyWorld\<lparr>dbFaults := {2}\<rparr>))
    \<and> sends (emptyWorld\<lparr>dbFaults := {2}\<rparr>) \<notin> sendFaults (emptyWorld\<lparr>dbFaults := {2}\<rparr>)
    \<and> fst (handleMessage_try okService (plainMessage (js ''hi''))
              (emptyWorld\<lparr>dbFaults := {2}\<rparr>)) = Inl StorageUnavailable
    \<and> completions (snd (handleMessage okService (plainMessage (js ''hi'')) (js [])
                           (emptyWorld\<lparr>dbFaults := {2}\<rparr>))) = []
    \<and> effects (snd (handleMessage okService (plainMessage (js ''hi'')) (js [])
                       (emptyWorld\<lparr>dbFaults := {2}\<rparr>)))
        = [ConsoleError (js ''Error handling message:''),
           MessageReply (js ''Sorry, I encountered an error while processing your message. Please try again later.'')])
   \<and> (\<not> author_bot (plainMessage (js ''hi''))
      \<and> (\<exists>i \<in> dbFaults (emptyWorld\<lparr>dbFaults := {1}\<rparr>).
            queries (emptyWorld\<lparr>dbFaults := {1}\<rparr>) \<le> i
            \<and> i < queries (emptyWorld\<lparr>dbFaults := {1}\<rparr>)
                  + queriesBeforeChecks (plainMessage (js ''hi'')) (emptyWorld\<lparr>dbFaults := {1}\<rparr>))
      \<and> sends (snd (onMessageCreate okService (plainMessage (js ''hi''))
                      (emptyWorld\<lparr>dbFaults := {1}\<rparr>))) = 0
      \<and> effects (snd (onMessageCreate okService (plainMessage (js ''hi''))
                        (emptyWorld\<lparr>dbFaults := {1}\<rparr>)))
          = [ConsoleError (js ''Error handling message:'')])"
  using C2_storage_failure [of "emptyWorld\<lparr>dbFaults := {2}\<rparr>" "plainMessage (js ''hi'')"
          okService "js []"]
        C2_storage_failure [of "emptyWorld\<lparr>dbFaults := {1}\<rparr>" "plainMessage (js ''hi'')"
          okService "js []"]
  by (simp add: emptyWorld_def plainMessage_def queriesBeforeCompletion_def
        queriesBeforeChecks_def select_defs)

section \<open>Response-mode policy at the MessageCreate handler\<close>

text \<open>
  Counterexample to claim C3 as stated: guild \<open>G1\<close> is in mode \<open>activated\<close> with channel
  \<open>C1\<close> activated. A message on \<open>C1\<close> whose author is a bot is dropped before the settings
  are read: no query, no completion request, nothing sent. The same message from an
  author that is not a bot is answered.
\<close>

theorem C3_bot_counterexample:
  "onMessageCreate okService (eventOn (js ''C1'') True) (settingsWorld activatedSettings)
     = (Inr (), settingsWorld activatedSettings)
   \<and> completions (settingsWorld activatedSettings) = []
   \<and> effects (settingsWorld activatedSettings) = []
   \<and> effects (snd (onMessageCreate okService (eventOn (js ''C1'') False)
                     (settingsWorld activatedSettings)))
       = [MessageReply (js ''ok'')]"
  by (simp add: onMessageCreate_def admits_def run_defs eventOn_def settingsWorld_def
        activatedSettings_def defaultSettings_def js_def)

text \<open>
  Claim C3, amended. For a message of a guild that has settings: in mode \<open>required\<close> the
  handler makes no completion request and sends nothing, whatever the channel lists, the
  author and the outcome of the settings lookup; so it does in mode \<open>activated\<close> with
  activated channels \<open>["C1"]\<close> and channel mode \<open>all\<close> for a message on channel \<open>C2\<close>.
  With those settings a message on channel \<open>C1\<close> whose author is not a bot is admitted
  once the settings lookup succeeds: the handler runs \<open>handleMessage\<close> on it, and when
  every query and every send succeeds a completion request is made. A message whose
  author is a bot leaves the world as it is, whatever the settings.
\<close>

theorem C3_policy:
  "(selectSettings (orElse (guild_id m) (js ''DM'')) w = Some s
      \<and> slashCommandMode s = js ''required''
    \<longrightarrow> fst (onMessageCreate svc m w) = Inr ()
        \<and> completions (snd (onMessageCreate svc m w)) = completions w
        \<and> sends (snd (onMessageCreate svc m w)) = sends w)
   \<and> (selectSettings (orElse (guild_id m) (js ''DM'')) w = Some s
      \<and> slashCommandMode s = js ''activated'' \<and> activatedChannels s = [js ''C1'']
      \<and> channelMode s = js ''all'' \<and> channel_id m = js ''C2''
    \<longrightarrow> fst (onMessageCreate svc m w) = Inr ()
        \<and> completions (snd (onMessageCreate svc m w)) = completions w
        \<and> sends (snd (onMessageCreate svc m w)) = sends w)
   \<and> (selectSettings (orElse (guild_id m) (js ''DM'')) w = Some s
      \<and> slashCommandMode s = js ''activated'' \<and> activatedChannels s = [js ''C1'']
      \<and> channelMode s = js ''all'' \<and> channel_id m = js ''C1''
      \<and> \<not> author_bot m \<and> queries w \<notin> dbFaults w
    \<longrightarrow> onMessageCreate svc m w
          = tryCatch (handleMessage svc m (js []))
              (\<lambda>error. consoleError (js ''Error handling message:''))
              (w\<lparr>queries := Suc (queries w)\<rparr>))
   \<and> (selectSettings (orElse (guild_id m) (js ''DM'')) w = Some s
      \<and> slashCommandMode s = js ''activated'' \<and> activatedChannels s = [js ''C1'']
      \<and> channelMode s = js ''all'' \<and> channel_id m = js ''C1''
      \<and> \<not> author_bot m \<and> dbFaults w = {} \<and> sendFaults w = {}
    \<longrightarrow> fst (onMessageCreate svc m w) = Inr ()
        \<and> length (completions (snd (onMessageCreate svc m w)))
            = Suc (length (completions w)))
   \<and> (author_bot m \<longrightarrow> onMessageCreate svc m w = (Inr (), w))"
proof -
  have required: "\<not> admits s (channel_id m)" if "slashCommandMode s = js ''required''"
    using that by (simp add: admits_def)
  have other: "\<not> admits s (channel_id m)"
    if "slashCommandMode s = js ''activated''" "activatedChannels s = [js ''C1'']"
      "channelMode s = js ''all''" "channel_id m = js ''C2''"
    using that by (simp add: admits_def js_def)
  have this_one: "admits s (channel_id m)"
    if "slashCommandMode s = js ''activated''" "activatedChannels s = [js ''C1'']"
      "channelMode s = js ''all''" "channel_id m = js ''C1''"
    using that by (simp add: admits_def js_def)
  show ?thesis
    using onMessageCreate_denied [of m w s svc] onMessageCreate_policy [of m w s svc]
      onMessageCreate_admitted [of m w s svc] onMessageCreate_bot [of m svc w]
      required other this_one
    by auto
qed

theorem C3_policy_witness:
  "selectSettings (orElse (guild_id (eventOn (js ''C1'') False)) (js ''DM''))
       (settingsWorld requiredSettings) = Some requiredSettings
   \<and> slashCommandMode requiredSettings = js ''required''
   \<and> completions (snd (onMessageCreate okService (eventOn (js ''C1'') False)
                         (settingsWorld requiredSettings))) = []
   \<and> sends (snd (onMessageCreate okService (eventOn (js ''C1'') False)
                   (settingsWorld requiredSettings))) = 0
   \<and> selectSettings (orElse (guild_id (eventOn (js ''C2'') False)) (js ''DM''))
       (settingsWorld activatedSettings) = Some activatedSettings
   \<and> slashCommandMode activatedSettings = js ''activated''
   \<and> activatedChannels activatedSettings = [js ''C1'']
   \<and> channelMode activatedSettings = js ''all''
   \<and> completions (snd (onMessageCreate okService (eventOn (js ''C2'') False)
                         (settingsWorld activatedSettings))) = []
   \<and> sends (snd (onMessageCreate okService (eventOn (js ''C2'') False)
                   (settingsWorld activatedSettings))) = 0
   \<and> \<not> author_bot (eventOn (js ''C1'') False)
   \<and> dbFaults (settingsWorld activatedSettings) = {}
   \<and> sendFaults (settingsWorld activatedSettings) = {}
   \<and> length (completions (snd (onMessageCreate okService (eventOn (js ''C1'') False)
                                 (settingsWorld activatedSettings)))) = 1
   \<and> author_bot (eventOn (js ''C1'') True)
   \<and> onMessageCreate okService (eventOn (js ''C1'') True) (settingsWorld activatedSettings)
       = (Inr (), settingsWorld activatedSettings)"
proof -
  have guild: "orElse (guild_id (eventOn ch b)) (js ''DM'') = js ''G1''" for ch b
    by (simp add: eventOn_def orElse_def js_is_empty)
  have rows: "selectSettings (js ''G1'') (settingsWorld requiredSettings) = Some requiredSettings"
    "selectSettings (js ''G1'') (settingsWorld activatedSettings) = Some activatedSettings"
    by (simp_all add: select_defs settingsWorld_def emptyWorld_def requiredSettings_def
          activatedSettings_def defaultSettings_def)
  have fields: "slashCommandMode requiredSettings = js ''required''"
    "slashCommandMode activatedSettings = js ''activated''"
    "activatedChannels activatedSettings = [js ''C1'']"
    "channelMode activatedSettings = js ''all''"
    by (simp_all add: requiredSettings_def activatedSettings_def defaultSettings_def)
  have event: "channel_id (eventOn ch b) = ch" "author_bot (eventOn ch b) = b" for ch b
    by (simp_all add: eventOn_def)
  have start: "completions (settingsWorld x) = []" "sends (settingsWorld x) = 0"
    "dbFaults (settingsWorld x) = {}" "sendFaults (settingsWorld x) = {}" for x
    by (simp_all add: settingsWorld_def emptyWorld_def)
  from C3_policy [of "eventOn (js ''C1'') False" "settingsWorld requiredSettings"
      requiredSettings okService]
  have a: "completions (snd (onMessageCreate okService (eventOn (js ''C1'') False)
                         (settingsWorld requiredSettings))) = []"
    "sends (snd (onMessageCreate okService (eventOn (js ''C1'') False)
                   (settingsWorld requiredSettings))) = 0"
    by (simp_all add: guild rows fields start)
  from C3_policy [of "eventOn (js ''C2'') False" "settingsWorld activatedSettings"
      activatedSettings okService]
  have b: "completions (snd (onMessageCreate okService (eventOn (js ''C2'') False)
                         (settingsWorld activatedSettings))) = []"
    "sends (snd (onMessageCreate okService (eventOn (js ''C2'') False)
                   (settingsWorld activatedSettings))) = 0"
    by (simp_all add: guild rows fields start event)
  from C3_policy [of "eventOn (js ''C1'') False" "settingsWorld activatedSettings"
      activatedSettings okService, THEN conjunct2, THEN conjunct2, THEN conjunct2,
      THEN conjunct1]
  have c: "length (completions (snd (onMessageCreate okService (eventOn (js ''C1'') False)
                                 (settingsWorld activatedSettings)))) = 1"
    by (simp add: guild rows fields start event)
  from C3_policy [of "eventOn (js ''C1'') True" "settingsWorld activatedSettings"
      activatedSettings okService, THEN conjunct2, THEN conjunct2, THEN conjunct2,
      THEN conjunct2]
  have d: "onMessageCreate okService (eventOn (js ''C1'') True)
             (settingsWorld activatedSettings) = (Inr (), settingsWorld activatedSettings)"
    by (simp add: event)
  from a b c d show ?thesis
    by (simp add: guild rows fields start event)
qed

section \<open>Trailing context\<close>

lemma list_of_length_10:
  "length xs = 10 \<Longrightarrow> \<exists>a b c d e f g h i j. xs = [a, b, c, d, e, f, g, h, i, j]"
  by (simp add: eval_nat_numeral length_Suc_conv) blast

text \<open>
  Counterexample to claim C5 as stated: twelve messages on the empty store with a service
  that always answers \<open>ok\<close>. The context of the twelfth request has ten entries, and five
  of them are replies of the assistant: it is not the user turns 2 to 11.
\<close>

theorem C5_context_counterexample:
  "contextOf (last (completions
      (turn okService (plainMessage (js ''t12'')) (turns okService elevenTurns emptyWorld))))
   = [(js ''assistant'', js ''ok''), (js ''user'', js ''t8''),
      (js ''assistant'', js ''ok''), (js ''user'', js ''t9''),
      (js ''assistant'', js ''ok''), (js ''user'', js ''t10''),
      (js ''assistant'', js ''ok''), (js ''user'', js ''t11''),
      (js ''assistant'', js ''ok''), (js ''user'', js ''t12'')]
   \<and> contextOf (last (completions
      (turn okService (plainMessage (js ''t12'')) (turns okService elevenTurns emptyWorld))))
   \<noteq> [(js ''user'', js ''t2''), (js ''user'', js ''t3''), (js ''user'', js ''t4''),
      (js ''user'', js ''t5''), (js ''user'', js ''t6''), (js ''user'', js ''t7''),
      (js ''user'', js ''t8''), (js ''user'', js ''t9''), (js ''user'', js ''t10''),
      (js ''user'', js ''t11'')]"
proof -
  have "contextOf (last (completions
      (turn okService (plainMessage (js ''t12'')) (turns okService elevenTurns emptyWorld))))
   = [(js ''assistant'', js ''ok''), (js ''user'', js ''t8''),
      (js ''assistant'', js ''ok''), (js ''user'', js ''t9''),
      (js ''assistant'', js ''ok''), (js ''user'', js ''t10''),
      (js ''assistant'', js ''ok''), (js ''user'', js ''t11''),
      (js ''assistant'', js ''ok''), (js ''user'', js ''t12'')]"
    by (simp add: run_defs elevenTurns_def contextOf_def length_js js_is_empty)
  moreover have "js ''assistant'' \<noteq> js ''user''"
    by (simp add: js_def)
  ultimately show ?thesis by simp
qed

text \<open>
  Claim C5, amended. After eleven turns of one user on one channel, each handled without a
  fault, the context of the twelfth request is the trailing ten of the stored messages
  of the conversation with the incoming message appended: the reply of turn 7, the
  user messages and the replies of turns 8 to 11, and the message of turn 12.
\<close>

theorem C5_trailing_context:
  assumes "dbFaults w = {}" and "sendFaults w = {}" and "length ms = 11"
    and "\<forall>m \<in> set ms. channel_id m = channel_id m12 \<and> author_id m = author_id m12"
  shows "\<exists>c r7 r8 r9 r10 r11.
       selectConversation (channel_id m12) (author_id m12) (turns svc ms w) = Some c
     \<and> contextOf (last (completions (turn svc m12 (turns svc ms w))))
         = slice_last 10 (transcript (conversation_id c) (turns svc ms w)
                            @ [(js ''user'', message_content m12)])
     \<and> length (contextOf (last (completions (turn svc m12 (turns svc ms w))))) = 10
     \<and> contextOf (last (completions (turn svc m12 (turns svc ms w))))
         = [(js ''assistant'', r7), (js ''user'', message_content (ms ! 7)),
            (js ''assistant'', r8), (js ''user'', message_content (ms ! 8)),
            (js ''assistant'', r9), (js ''user'', message_content (ms ! 9)),
            (js ''assistant'', r10), (js ''user'', message_content (ms ! 10)),
            (js ''assistant'', r11), (js ''user'', message_content m12)]"
proof -
  from assms(3) obtain m1 ms' where ms: "ms = m1 # ms'" and len: "length ms' = 10"
    by (cases ms) simp_all
  from assms(4) ms have same1: "channel_id m1 = channel_id m12" "author_id m1 = author_id m12"
    and rest: "\<forall>m \<in> set ms'. channel_id m = channel_id m12 \<and> author_id m = author_id m12"
    by simp_all
  from turn_ok [OF assms(1,2), of m1 svc] same1
  obtain c r1 where
    c1: "selectConversation (channel_id m12) (author_id m12) (turn svc m1 w) = Some c"
    and t1: "transcript (conversation_id c) (turn svc m1 w)
        = transcript (conversation_id c) w
          @ [(js ''user'', message_content m1), (js ''assistant'', r1)]"
    and ok1: "dbFaults (turn svc m1 w) = {}" "sendFaults (turn svc m1 w) = {}"
    by auto
  have step: "turns svc ms w = turns svc ms' (turn svc m1 w)"
    by (simp add: ms turns_def)
  from turns_ok [OF ok1 rest c1, of svc] obtain rs where
    c11: "selectConversation (channel_id m12) (author_id m12) (turns svc ms w) = Some c"
    and ok11: "dbFaults (turns svc ms w) = {}" "sendFaults (turns svc ms w) = {}"
    and rs: "length rs = length ms'"
    and t11: "transcript (conversation_id c) (turns svc ms w)
              = transcript (conversation_id c) (turn svc m1 w)
                @ concat (map2 (\<lambda>m r. [(js ''user'', message_content m), (js ''assistant'', r)])
                            ms' rs)"
    unfolding step by blast
  from turn_ok [OF ok11, of m12 svc] c11
  have ctx: "contextOf (last (completions (turn svc m12 (turns svc ms w))))
        = slice_last 10 (transcript (conversation_id c) (turns svc ms w)
                           @ [(js ''user'', message_content m12)])"
    by auto
  from list_of_length_10 [OF len] obtain m2 m3 m4 m5 m6 m7 m8 m9 m10 m11
    where ms': "ms' = [m2, m3, m4, m5, m6, m7, m8, m9, m10, m11]"
    by (elim exE)
  from rs len have "length rs = 10" by simp
  from list_of_length_10 [OF this] obtain r2 r3 r4 r5 r6 r7 r8 r9 r10 r11
    where rs': "rs = [r2, r3, r4, r5, r6, r7, r8, r9, r10, r11]"
    by (elim exE)
  have ctx_value: "contextOf (last (completions (turn svc m12 (turns svc ms w))))
     = [(js ''assistant'', r7), (js ''user'', message_content m8), (js ''assistant'', r8),
        (js ''user'', message_content m9), (js ''assistant'', r9),
        (js ''user'', message_content m10), (js ''assistant'', r10),
        (js ''user'', message_content m11), (js ''assistant'', r11),
        (js ''user'', message_content m12)]"
    by (simp add: ctx t11 t1 ms' rs' slice_last_def)
  have turns: "ms ! 7 = m8" "ms ! 8 = m9" "ms ! 9 = m10" "ms ! 10 = m11"
    by (simp_all add: ms ms')
  have "length (contextOf (last (completions (turn svc m12 (turns svc ms w))))) = 10"
    by (simp add: ctx_value)
  with c11 ctx ctx_value show ?thesis
    unfolding turns by blast
qed

theorem C5_trailing_context_witness:
  "dbFaults emptyWorld = {} \<and> sendFaults emptyWorld = {}
   \<and> length elevenTurns = 11
   \<and> map channel_id elevenTurns = replicate 11 (channel_id (plainMessage (js ''t12'')))
   \<and> map author_id elevenTurns = replicate 11 (author_id (plainMessage (js ''t12'')))
   \<and> (\<exists>r7 r8 r9 r10 r11.
        contextOf (last (completions (turn okService (plainMessage (js ''t12''))
          (turns okService elevenTurns emptyWorld))))
         = [(js ''assistant'', r7), (js ''user'', js ''t8''),
            (js ''assistant'', r8), (js ''user'', js ''t9''),
            (js ''assistant'', r9), (js ''user'', js ''t10''),
            (js ''assistant'', r10), (js ''user'', js ''t11''),
            (js ''assistant'', r11), (js ''user'', js ''t12'')])"
proof -
  have h: "dbFaults emptyWorld = {}" "sendFaults emptyWorld = {}"
    by (simp_all add: emptyWorld_def)
  have same: "\<forall>m \<in> set elevenTurns.
          channel_id m = channel_id (plainMessage (js ''t12''))
          \<and> author_id m = author_id (plainMessage (js ''t12''))"
    by (simp add: elevenTurns_def plainMessage_def)
  have len: "length elevenTurns = 11"
    by (simp add: elevenTurns_def)
  have content: "message_content (elevenTurns ! 7) = js ''t8''"
    "message_content (elevenTurns ! 8) = js ''t9''"
    "message_content (elevenTurns ! 9) = js ''t10''"
    "message_content (elevenTurns ! 10) = js ''t11''"
    "message_content (plainMessage (js ''t12'')) = js ''t12''"
    by (simp_all add: elevenTurns_def plainMessage_def)
  from C5_trailing_context [OF h len same, of okService]
  have "\<exists>r7 r8 r9 r10 r11.
        contextOf (last (completions (turn okService (plainMessage (js ''t12''))
          (turns okService elevenTurns emptyWorld))))
         = [(js ''assistant'', r7), (js ''user'', js ''t8''),
            (js ''assistant'', r8), (js ''user'', js ''t9''),
            (js ''assistant'', r9), (js ''user'', js ''t10''),
            (js ''assistant'', r10), (js ''user'', js ''t11''),
            (js ''assistant'', r11), (js ''user'', js ''t12'')]"
    unfolding content by blast
  moreover have "map channel_id elevenTurns
                   = replicate 11 (channel_id (plainMessage (js ''t12'')))"
    "map author_id elevenTurns = replicate 11 (author_id (plainMessage (js ''t12'')))"
    by (simp_all add: elevenTurns_def plainMessage_def eval_nat_numeral)
  ultimately show ?thesis using h len by blast
qed

section \<open>Failure of the Completion Service\<close>

text \<open>
  Claim C10. When the call to the Completion Service throws, \<open>generateAIResponse\<close> returns
  one of its three fixed apologies; \<open>handleMessage\<close> stores it as the last message of the
  conversation with role \<open>assistant\<close>, and it is part of the context of the request of
  the next turn.
\<close>

theorem C10_apology_stored:
  assumes "dbFaults w = {}" and "sendFaults w = {}"
    and "\<forall>request. svc (length (completions w)) request = Inl error"
    and "channel_id n = channel_id m" and "author_id n = author_id m"
  shows "fst (generateAIResponse svc t ctx pers rlen w) = Inr (apology error)
     \<and> apology error \<in>
         {js ''I'm currently experiencing high demand. Please try again in a moment.'',
          js ''There's an issue with my configuration. Please contact the server administrator.'',
          js ''I encountered an error while processing your request. Please try again later.''}
     \<and> (\<exists>c. selectConversation (channel_id m) (author_id m) (turn svc m w) = Some c
           \<and> last (transcript (conversation_id c) (turn svc m w))
               = (js ''assistant'', apology error))
     \<and> (js ''assistant'', apology error)
         \<in> set (contextOf (last (completions (turn svc n (turn svc m w)))))"
proof -
  from generateAIResponse_ok [of svc t ctx pers rlen w] assms(3)
  have a: "fst (generateAIResponse svc t ctx pers rlen w) = Inr (apology error)"
    by auto
  from turn_ok [OF assms(1,2), of m svc] assms(3)
  obtain c where
    c: "selectConversation (channel_id m) (author_id m) (turn svc m w) = Some c"
    and t: "transcript (conversation_id c) (turn svc m w)
        = transcript (conversation_id c) w
          @ [(js ''user'', message_content m), (js ''assistant'', apology error)]"
    and ok: "dbFaults (turn svc m w) = {}" "sendFaults (turn svc m w) = {}"
    by blast
  from turn_ok [OF ok, of n svc] c assms(4,5)
  have "contextOf (last (completions (turn svc n (turn svc m w))))
        = slice_last 10 (transcript (conversation_id c) (turn svc m w)
                           @ [(js ''user'', message_content n)])"
    by auto
  also have "\<dots> = slice_last (7 + length [(js ''user'', message_content m),
                       (js ''assistant'', apology error), (js ''user'', message_content n)])
                 (transcript (conversation_id c) w
                    @ [(js ''user'', message_content m), (js ''assistant'', apology error),
                       (js ''user'', message_content n)])"
    by (simp add: t)
  finally have "contextOf (last (completions (turn svc n (turn svc m w))))
        = slice_last 7 (transcript (conversation_id c) w)
          @ [(js ''user'', message_content m), (js ''assistant'', apology error),
             (js ''user'', message_content n)]"
    by (simp only: slice_last_append)
  then have b: "(js ''assistant'', apology error)
         \<in> set (contextOf (last (completions (turn svc n (turn svc m w)))))"
    by simp
  from c t have "last (transcript (conversation_id c) (turn svc m w))
               = (js ''assistant'', apology error)"
    by simp
  with a b c apology_fixed [of error] show ?thesis by blast
qed

theorem C10_apology_stored_witness:
  "dbFaults emptyWorld = {} \<and> sendFaults emptyWorld = {}
   \<and> (\<forall>request. downService (length (completions emptyWorld)) request
          = Inl (ErrorObject (js ''rate limit exceeded'')))
   \<and> channel_id (plainMessage (js ''again'')) = channel_id (plainMessage (js ''hi''))
   \<and> author_id (plainMessage (js ''again'')) = author_id (plainMessage (js ''hi''))
   \<and> (js ''assistant'', js ''I'm currently experiencing high demand. Please try again in a moment.'')
         \<in> set (contextOf (last (completions
                  (turn downService (plainMessage (js ''again''))
                     (turn downService (plainMessage (js ''hi'')) emptyWorld)))))"
proof -
  have h: "dbFaults emptyWorld = {}" "sendFaults emptyWorld = {}"
    "\<forall>request. downService (length (completions emptyWorld)) request
          = Inl (ErrorObject (js ''rate limit exceeded''))"
    "channel_id (plainMessage (js ''again'')) = channel_id (plainMessage (js ''hi''))"
    "author_id (plainMessage (js ''again'')) = author_id (plainMessage (js ''hi''))"
    by (simp_all add: emptyWorld_def downService_def plainMessage_def)
  have a: "apology (ErrorObject (js ''rate limit exceeded''))
             = js ''I'm currently experiencing high demand. Please try again in a moment.''"
    by (simp add: apology_def js_def)
  from C10_apology_stored [where w = emptyWorld and svc = downService
      and m = "plainMessage (js ''hi'')" and n = "plainMessage (js ''again'')", OF h] h
  show ?thesis
    by (simp add: a)
qed

section \<open>Channel activation\<close>

lemma find_append_js:
  "find P (xs @ ys) = (case find P xs of None \<Rightarrow> find P ys | Some x \<Rightarrow> Some x)"
  by (induction xs) simp_all

lemma find_map_same:
  "(\<And>x. P (f x) = P x) \<Longrightarrow> find P (map f xs) = map_option f (find P xs)"
  by (induction xs) simp_all

lemma find_holds: "find P xs = Some x \<Longrightarrow> P x"
  by (induction xs) (auto split: if_splits)

lemma handleActivateCommand_ok:
  assumes db: "dbFaults w = {}" and tx: "sendFaults w = {}"
  shows "\<exists>s'. selectSettings (orElse (interaction_guild_id i) (js ''DM''))
                (snd (handleActivateCommand i w)) = Some s'
     \<and> slashCommandMode s' = js ''activated''
     \<and> activatedChannels s'
         = (case selectSettings (orElse (interaction_guild_id i) (js ''DM'')) w of
              None \<Rightarrow> [orElse (interaction_channel_id i) (js ''DM'')]
            | Some s \<Rightarrow>
                if orElse (interaction_channel_id i) (js ''DM'') \<in> set (activatedChannels s)
                then activatedChannels s
                else activatedChannels s @ [orElse (interaction_channel_id i) (js ''DM'')])
     \<and> dbFaults (snd (handleActivateCommand i w)) = {}
     \<and> sendFaults (snd (handleActivateCommand i w)) = {}"
proof -
  define g where "g = orElse (interaction_guild_id i) (js ''DM'')"
  define ch where "ch = orElse (interaction_channel_id i) (js ''DM'')"
  have "\<exists>s'. selectSettings g (snd (handleActivateCommand i w)) = Some s'
     \<and> slashCommandMode s' = js ''activated''
     \<and> activatedChannels s'
         = (case selectSettings g w of
              None \<Rightarrow> [ch]
            | Some s \<Rightarrow> if ch \<in> set (activatedChannels s) then activatedChannels s
                        else activatedChannels s @ [ch])
     \<and> dbFaults (snd (handleActivateCommand i w)) = {}
     \<and> sendFaults (snd (handleActivateCommand i w)) = {}"
  proof (cases "selectSettings g w")
    case None
    then show ?thesis using db tx
      by (simp add: handleActivateCommand_def g_def [symmetric] ch_def [symmetric]
          storage_defs select_defs io_defs Let_def defaultSettings_def find_append_js)
  next
    case (Some s)
    then have g: "settings_guildId s = g"
      using find_holds [of "\<lambda>s. settings_guildId s = g" "settings w" s]
      by (simp add: select_defs)
    show ?thesis using Some db tx g
      by (simp add: handleActivateCommand_def g_def [symmetric] ch_def [symmetric]
          storage_defs select_defs io_defs Let_def find_map_same)
  qed
  then show ?thesis
    unfolding g_def ch_def .
qed

lemma handleActivateCommand_distinct:
  assumes "dbFaults w = {}" and "sendFaults w = {}"
    and "\<forall>s. selectSettings (orElse (interaction_guild_id i) (js ''DM'')) w = Some s
           \<longrightarrow> distinct (activatedChannels s)"
  shows "\<exists>s'. selectSettings (orElse (interaction_guild_id i) (js ''DM''))
                (snd (handleActivateCommand i w)) = Some s'
           \<and> distinct (activatedChannels s')"
  using handleActivateCommand_ok [OF assms(1,2), of i] assms(3)
  by (auto split: option.splits if_splits)

text \<open>
  Counterexample to claim C8 as stated: the activated channels of guild \<open>G1\<close> hold
  \<open>general\<close> twice. Two activations of \<open>general\<close> leave the list as it is, with two
  occurrences.
\<close>

theorem C8_duplicate_counterexample:
  "map activatedChannels
     (settings (snd (handleActivateCommand activateGeneral
                  (snd (handleActivateCommand activateGeneral
                          (settingsWorld duplicateSettings))))))
     = [[js ''general'', js ''general'']]
   \<and> count_list
        (concat (map activatedChannels
           (settings (snd (handleActivateCommand activateGeneral
                        (snd (handleActivateCommand activateGeneral
                                (settingsWorld duplicateSettings))))))))
        (js ''general'') = 2"
  by (simp add: handleActivateCommand_def activateGeneral_def settingsWorld_def
        duplicateSettings_def defaultSettings_def emptyWorld_def storage_defs select_defs
        io_defs orElse_def js_is_empty Let_def)

text \<open>
  Claim C8, amended. Two activations of the same channel, every query and every send
  succeeding: after the first the mode is \<open>activated\<close> (whether or not the guild had
  settings, whatever their mode), the second leaves the list of activated channels as
  the first left it, the channel is in it, and it occurs exactly once provided the
  stored list held it at most once before the first activation.
\<close>

theorem C8_activate_twice:
  assumes "dbFaults w = {}" and "sendFaults w = {}"
  shows "\<exists>s1 s2.
       selectSettings (orElse (interaction_guild_id i) (js ''DM''))
         (snd (handleActivateCommand i w)) = Some s1
     \<and> slashCommandMode s1 = js ''activated''
     \<and> selectSettings (orElse (interaction_guild_id i) (js ''DM''))
         (snd (handleActivateCommand i (snd (handleActivateCommand i w)))) = Some s2
     \<and> slashCommandMode s2 = js ''activated''
     \<and> activatedChannels s2 = activatedChannels s1
     \<and> orElse (interaction_channel_id i) (js ''DM'') \<in> set (activatedChannels s2)
     \<and> ((\<forall>s. selectSettings (orElse (interaction_guild_id i) (js ''DM'')) w = Some s
            \<longrightarrow> count_list (activatedChannels s) (orElse (interaction_channel_id i) (js ''DM'')) \<le> 1)
          \<longrightarrow> count_list (activatedChannels s2) (orElse (interaction_channel_id i) (js ''DM'')) = 1)"
proof -
  define g where "g = orElse (interaction_guild_id i) (js ''DM'')"
  define ch where "ch = orElse (interaction_channel_id i) (js ''DM'')"
  define w1 where "w1 = snd (handleActivateCommand i w)"
  from handleActivateCommand_ok [OF assms(1,2), of i]
  obtain s1 where s1: "selectSettings g w1 = Some s1" "slashCommandMode s1 = js ''activated''"
    "activatedChannels s1 = (case selectSettings g w of None \<Rightarrow> [ch]
        | Some s \<Rightarrow> if ch \<in> set (activatedChannels s) then activatedChannels s
                    else activatedChannels s @ [ch])"
    and ok1: "dbFaults w1 = {}" "sendFaults w1 = {}"
    unfolding g_def ch_def w1_def by blast
  from handleActivateCommand_ok [OF ok1, of i] s1(1)
  obtain s2 where s2: "selectSettings g (snd (handleActivateCommand i w1)) = Some s2"
    "slashCommandMode s2 = js ''activated''"
    "activatedChannels s2 = (if ch \<in> set (activatedChannels s1) then activatedChannels s1
                    else activatedChannels s1 @ [ch])"
    unfolding g_def ch_def by auto
  have mem: "ch \<in> set (activatedChannels s1)"
    by (simp add: s1(3) split: option.split)
  have one: "count_list (activatedChannels s1) ch = 1"
    if set: "\<forall>s. selectSettings g w = Some s \<longrightarrow> count_list (activatedChannels s) ch \<le> 1"
  proof (cases "selectSettings g w")
    case None
    then show ?thesis by (simp add: s1(3))
  next
    case (Some s)
    with set have le: "count_list (activatedChannels s) ch \<le> 1"
      by simp
    show ?thesis
    proof (cases "ch \<in> set (activatedChannels s)")
      case True
      then have "count_list (activatedChannels s) ch > 0"
        using count_list_0_iff [of "activatedChannels s" ch]
        by (cases "count_list (activatedChannels s) ch") auto
      with le True Some show ?thesis by (simp add: s1(3))
    next
      case False
      then show ?thesis using Some by (simp add: s1(3) count_list_0_iff)
    qed
  qed
  from s1 s2 mem one show ?thesis
    unfolding g_def ch_def w1_def by simp
qed

theorem C8_activate_twice_witness:
  "dbFaults emptyWorld = {} \<and> sendFaults emptyWorld = {}
   \<and> selectSettings (js ''G1'') emptyWorld = None
   \<and> (\<exists>s2. selectSettings (js ''G1'')
         (snd (handleActivateCommand
                 \<lparr>interaction_user_id = js ''U1'', interaction_channel_id = Some (js ''general''),
                  interaction_guild_id = Some (js ''G1'')\<rparr>
            (snd (handleActivateCommand
                 \<lparr>interaction_user_id = js ''U1'', interaction_channel_id = Some (js ''general''),
                  interaction_guild_id = Some (js ''G1'')\<rparr> emptyWorld)))) = Some s2
        \<and> slashCommandMode s2 = js ''activated''
        \<and> count_list (activatedChannels s2) (js ''general'') = 1)"
proof -
  have h: "dbFaults emptyWorld = {}" "sendFaults emptyWorld = {}"
    by (simp_all add: emptyWorld_def)
  have none: "selectSettings (js ''G1'') emptyWorld = None"
    by (simp add: emptyWorld_def select_defs)
  have g: "orElse (Some (js ''G1'')) (js ''DM'') = js ''G1''"
    "orElse (Some (js ''general'')) (js ''DM'') = js ''general''"
    by (simp_all add: orElse_def js_is_empty)
  from C8_activate_twice [of emptyWorld
      "\<lparr>interaction_user_id = js ''U1'', interaction_channel_id = Some (js ''general''),
        interaction_guild_id = Some (js ''G1'')\<rparr>", OF h] none
  have "\<exists>s2. selectSettings (js ''G1'')
         (snd (handleActivateCommand
                 \<lparr>interaction_user_id = js ''U1'', interaction_channel_id = Some (js ''general''),
                  interaction_guild_id = Some (js ''G1'')\<rparr>
            (snd (handleActivateCommand
                 \<lparr>interaction_user_id = js ''U1'', interaction_channel_id = Some (js ''general''),
                  interaction_guild_id = Some (js ''G1'')\<rparr> emptyWorld)))) = Some s2
        \<and> slashCommandMode s2 = js ''activated''
        \<and> count_list (activatedChannels s2) (js ''general'') = 1"
    by (simp add: g) blast
  with none h show ?thesis by blast
qed

end
